theory Spec2Isabelle
  imports Complex_Main "HOL-Library.Log_Nat" "HOL-Library.Multiset"
begin

section \<open>Time\<close>

text \<open>
  Python's \<open>datetime\<close> has microsecond resolution. A point in time is the number of
  microseconds since the epoch, a \<open>timedelta\<close> is a number of microseconds.
  \<open>timedelta.total_seconds()\<close> divides the microseconds by \<open>10^6\<close>; comparing that
  quotient with a whole number of seconds \<open>n\<close> is comparing the microseconds with
  \<open>n * 10^6\<close>.
\<close>

type_synonym datetime = int
type_synonym timedelta = int

definition seconds :: "int \<Rightarrow> timedelta" where
  "seconds n = n * 1000000"

definition minutes :: "int \<Rightarrow> timedelta" where
  "minutes n = seconds (60 * n)"

definition hours :: "int \<Rightarrow> timedelta" where
  "hours n = minutes (60 * n)"

section \<open>The circuit breaker of \<open>EnhancedBaseScraper\<close>\<close>

text \<open>
  \<open>scrapers/enhanced_base_scraper.py\<close>. The fields of the scraper object that the
  circuit breaker and the health statistics read and write. The threshold and the
  timeout are attributes set by \<open>__init__\<close> (5 and 300) and assigned nowhere else, so
  they are constants here.
\<close>

definition circuit_breaker_threshold :: int where
  "circuit_breaker_threshold = 5"

definition circuit_breaker_timeout :: int where
  "circuit_breaker_timeout = 300"

record scraper =
  failure_count :: int
  last_failure_time :: "datetime option"
  total_requests :: int
  successful_requests :: int
  consecutive_failures :: int
  last_successful_scrape :: "datetime option"

definition init_scraper :: scraper where
  "init_scraper =
     \<lparr> failure_count = 0, last_failure_time = None,
       total_requests = 0, successful_requests = 0,
       consecutive_failures = 0, last_successful_scrape = None \<rparr>"

definition is_circuit_breaker_open :: "scraper \<Rightarrow> datetime \<Rightarrow> bool" where
  "is_circuit_breaker_open s now =
     (if failure_count s < circuit_breaker_threshold then False
      else case last_failure_time s of
             Some t \<Rightarrow> now - t < seconds circuit_breaker_timeout
           | None \<Rightarrow> True)"

definition record_success :: "scraper \<Rightarrow> datetime \<Rightarrow> scraper" where
  "record_success s now =
     s\<lparr> failure_count := 0, last_failure_time := None,
        successful_requests := successful_requests s + 1,
        consecutive_failures := 0,
        last_successful_scrape := Some now \<rparr>"

definition record_failure :: "scraper \<Rightarrow> datetime \<Rightarrow> scraper" where
  "record_failure s now =
     s\<lparr> failure_count := failure_count s + 1, last_failure_time := Some now,
        consecutive_failures := consecutive_failures s + 1 \<rparr>"

text \<open>
  What one \<open>session.get\<close> of the retry loop comes to: a response with its status, or one
  of the exceptions the loop catches. Each attempt carries the time at which its
  outcome is handled (the loop sleeps between attempts).
\<close>

datatype attempt =
    Response int
  | TimeoutError
  | ClientConnectorError
  | OtherException

text \<open>
  The body of the \<open>for attempt in range(max_retries)\<close> loop: \<open>True\<close> when the attempt
  returns the response (status 200), \<open>False\<close> when the loop goes on to the next attempt.
  A 429 sleeps for \<open>Retry-After\<close>, a 403 sleeps five seconds, any other status and
  every caught exception is logged; none of them touches the scraper's fields.
\<close>

fun attempt_returns :: "attempt \<Rightarrow> bool" where
  "attempt_returns (Response st) =
     (if st = 200 then True
      else if st = 429 then False
      else if st = 403 then False
      else False)"
| "attempt_returns TimeoutError = False"
| "attempt_returns ClientConnectorError = False"
| "attempt_returns OtherException = False"

text \<open>
  The retry loop over the attempts \<open>i, i + 1, ..., max_retries - 1\<close>. The result is the
  response status returned (if any), the scraper afterwards and the number of
  \<open>session.get\<close> calls made.
\<close>

fun retry_loop ::
  "(nat \<Rightarrow> attempt \<times> datetime) \<Rightarrow> nat \<Rightarrow> nat \<Rightarrow> scraper \<Rightarrow> int option \<times> scraper \<times> nat"
where
  "retry_loop fetch i 0 s = (None, s, 0)"
| "retry_loop fetch i (Suc k) s =
     (case fetch i of (a, t) \<Rightarrow>
        if attempt_returns a then (Some 200, record_success s t, 1)
        else (case retry_loop fetch (Suc i) k s of (r, s', n) \<Rightarrow> (r, s', Suc n)))"

definition max_retries :: nat where
  "max_retries = 3"

text \<open>
  \<open>_make_robust_request\<close>: \<open>now\<close> is the time of the circuit-breaker check on entry,
  \<open>fetch i\<close> the outcome of attempt \<open>i\<close> and \<open>t_fail\<close> the time at which
  \<open>record_failure\<close> runs when every attempt has failed.
\<close>

definition make_robust_request ::
  "scraper \<Rightarrow> datetime \<Rightarrow> (nat \<Rightarrow> attempt \<times> datetime) \<Rightarrow> datetime \<Rightarrow> int option \<times> scraper \<times> nat"
where
  "make_robust_request s now fetch t_fail =
     (if is_circuit_breaker_open s now then (None, s, 0)
      else
        let s1 = s\<lparr> total_requests := total_requests s + 1 \<rparr> in
        case retry_loop fetch 0 max_retries s1 of
          (Some r, s2, n) \<Rightarrow> (Some r, s2, n)
        | (None, s2, n) \<Rightarrow> (None, record_failure s2 t_fail, n))"

text \<open>
  A sequence of requests on one scraper, each with the time of its entry check, its
  attempts and the time of its failure record: the scraper afterwards and the number
  of \<open>session.get\<close> calls of each request.
\<close>

fun run_requests ::
  "scraper \<Rightarrow> (datetime \<times> (nat \<Rightarrow> attempt \<times> datetime) \<times> datetime) list \<Rightarrow> scraper \<times> nat list" where
  "run_requests s [] = (s, [])"
| "run_requests s ((now, fetch, t_fail) # rest) =
     (case make_robust_request s now fetch t_fail of
        (r, s1, n) \<Rightarrow> (case run_requests s1 rest of (s2, ns) \<Rightarrow> (s2, n # ns)))"

text \<open>
  The failure count is never negative, and a failure counted has its time recorded:
  this holds of every scraper that \<open>__init__\<close> and the requests produce.
\<close>

definition breaker_consistent :: "scraper \<Rightarrow> bool" where
  "breaker_consistent s =
     (0 \<le> failure_count s \<and> (failure_count s = 0 \<or> last_failure_time s \<noteq> None))"


section \<open>Python floats\<close>

text \<open>
  A Python float is an IEEE 754 double, here the rational number it denotes. Every
  arithmetic operation on floats returns the exact result rounded to the nearest
  double, ties to the even significand: \<open>fl\<close> is that rounding, for results below the
  overflow threshold \<open>2^1024\<close> (beyond it Python has \<open>inf\<close>, which is not modelled).
  A double is a whole multiple of \<open>2^e\<close> with a significand below \<open>2^53\<close> and
  \<open>e\<close> at least \<open>-1074\<close>. The rounding is modelled where the code compares a computed
  float with a threshold on prices, in the price-drop and the flip test.
\<close>

definition pow2 :: "int \<Rightarrow> rat" where
  "pow2 e = (if 0 \<le> e then 2 ^ nat e else 1 / 2 ^ nat (- e))"

definition round_half_even :: "rat \<Rightarrow> int" where
  "round_half_even x =
     (let f = \<lfloor>x\<rfloor>; d = x - of_int f
      in if d < 1 / 2 then f
         else if 1 / 2 < d then f + 1
         else if even f then f else f + 1)"

text \<open>
  The exponent of the unit in the last place of the double nearest to \<open>x\<close>: the \<open>e\<close> with
  \<open>2^52 \<le> |x| / 2^e < 2^53\<close>, found from the bit lengths of numerator and denominator
  (\<open>bitlen\<close>), and no smaller than \<open>-1074\<close>.
\<close>

definition ulp_exponent :: "rat \<Rightarrow> int" where
  "ulp_exponent x =
     (let (n, d) = quotient_of \<bar>x\<bar>;
          e0 = bitlen n - bitlen d - 53;
          e = (if \<bar>x\<bar> / pow2 e0 < 2 ^ 53 then e0 else e0 + 1)
      in max e (- 1074))"

definition fl :: "rat \<Rightarrow> rat" where
  "fl x = (if x = 0 then 0
           else of_int (round_half_even (x / pow2 (ulp_exponent x))) * pow2 (ulp_exponent x))"

text \<open>
  \<open>sum(xs)\<close> over floats. CPython adds from left to right, rounding after each
  addition, up to version 3.11, and with a compensated algorithm from 3.12 on: the
  function is a parameter where it is used. \<open>seq_sum\<close> is the left-to-right sum; when
  all its partial sums are doubles, every summation returns the same, exact, sum.
\<close>

definition seq_sum :: "rat list \<Rightarrow> rat" where
  "seq_sum xs = foldl (\<lambda>a x. fl (a + x)) 0 xs"

section \<open>Product data and its validation\<close>

text \<open>
  The dictionaries the parsing strategies hand to \<open>_validate_product_data\<close> come from
  \<open>json.loads\<close> or are built by the strategy itself. Their values are Python values:
  \<open>None\<close>, booleans, integers, floats, strings, lists and dictionaries. A dictionary
  is an association list read with \<open>map_of\<close>. Strings are lists of characters with
  code points below 256. Floats are the rationals they denote: in this section the
  model computes prices and scores exactly, where Python rounds to binary floating
  point.
\<close>

datatype pyval =
    PNone
  | PBool bool
  | PInt int
  | PFloat rat
  | PStr string
  | PList "pyval list"
  | PDict "(string \<times> pyval) list"

type_synonym pydict = "(string \<times> pyval) list"

text \<open>Python's truth value of an object (\<open>not x\<close>, \<open>x or y\<close>, \<open>if x\<close>).\<close>

fun truthy :: "pyval \<Rightarrow> bool" where
  "truthy PNone = False"
| "truthy (PBool b) = b"
| "truthy (PInt i) = (i \<noteq> 0)"
| "truthy (PFloat r) = (r \<noteq> 0)"
| "truthy (PStr s) = (s \<noteq> [])"
| "truthy (PList xs) = (xs \<noteq> [])"
| "truthy (PDict kvs) = (kvs \<noteq> [])"

text \<open>\<open>field in data\<close> and \<open>field in data and data[field]\<close>.\<close>

definition has_key :: "pydict \<Rightarrow> string \<Rightarrow> bool" where
  "has_key d k = (case map_of d k of None \<Rightarrow> False | Some v \<Rightarrow> True)"

definition present :: "pydict \<Rightarrow> string \<Rightarrow> bool" where
  "present d k = (case map_of d k of None \<Rightarrow> False | Some v \<Rightarrow> truthy v)"

text \<open>
  \<open>str(x)\<close>: the string itself for a string; for every other value the text Python
  prints, which is a parameter \<open>repr\<close> of the model (the shortest round-trip decimal
  of a float is not computed here).
\<close>

definition py_str :: "(pyval \<Rightarrow> string) \<Rightarrow> pyval \<Rightarrow> string" where
  "py_str repr v = (case v of PStr s \<Rightarrow> s | _ \<Rightarrow> repr v)"

subsection \<open>String operations\<close>

text \<open>The characters \<open>str.strip()\<close> removes, among the code points below 256.\<close>

definition is_space :: "char \<Rightarrow> bool" where
  "is_space c = (of_char c \<in> {9, 10, 11, 12, 13, 28, 29, 30, 31, 32, 133, 160 :: nat})"

definition strip :: "string \<Rightarrow> string" where
  "strip s = rev (dropWhile is_space (rev (dropWhile is_space s)))"

definition is_digit :: "char \<Rightarrow> bool" where
  "is_digit c = (48 \<le> (of_char c :: nat) \<and> (of_char c :: nat) \<le> 57)"

definition startswith :: "string \<Rightarrow> string \<Rightarrow> bool" where
  "startswith s p = (take (length p) s = p)"

definition replace_char :: "char \<Rightarrow> char \<Rightarrow> string \<Rightarrow> string" where
  "replace_char a b s = map (\<lambda>c. if c = a then b else c) s"

definition remove_char :: "char \<Rightarrow> string \<Rightarrow> string" where
  "remove_char a s = filter (\<lambda>c. c \<noteq> a) s"

text \<open>\<open>s.rindex(c)\<close>, used only where \<open>c\<close> occurs in \<open>s\<close>.\<close>

definition rindex :: "string \<Rightarrow> char \<Rightarrow> nat" where
  "rindex s c = length s - 1 - length (takeWhile (\<lambda>x. x \<noteq> c) (rev s))"

text \<open>\<open>s.split(c)[-1]\<close>: what follows the last \<open>c\<close>.\<close>

definition after_last :: "char \<Rightarrow> string \<Rightarrow> string" where
  "after_last c s = rev (takeWhile (\<lambda>x. x \<noteq> c) (rev s))"

definition digits_to_nat :: "string \<Rightarrow> nat" where
  "digits_to_nat ds = foldl (\<lambda>n c. 10 * n + (of_char c - 48)) 0 ds"

text \<open>
  \<open>float(s)\<close> for a string of digits and dots, which is all \<open>_extract_price\<close> passes
  to it: the decimal number when there is at least one digit and at most one dot,
  \<open>None\<close> for the \<open>ValueError\<close> otherwise.
\<close>

definition py_float :: "string \<Rightarrow> rat option" where
  "py_float s =
     (let ip = takeWhile is_digit s; rest = dropWhile is_digit s in
      case rest of
        [] \<Rightarrow> (if ip = [] then None else Some (of_nat (digits_to_nat ip)))
      | c # fp \<Rightarrow>
          if c = CHR ''.'' \<and> list_all is_digit fp \<and> \<not> (ip = [] \<and> fp = [])
          then Some (of_nat (digits_to_nat ip) + of_nat (digits_to_nat fp) / 10 ^ length fp)
          else None)"

text \<open>
  The first match of the pattern \<open>\d+\.?\d*\<close> in a string, turned into a float:
  the value of \<open>float(re.findall(...)[0])\<close>, \<open>None\<close> when nothing matches.
\<close>

definition first_number :: "string \<Rightarrow> rat option" where
  "first_number s =
     (let s1 = dropWhile (\<lambda>c. \<not> is_digit c) s;
          ip = takeWhile is_digit s1; rest = dropWhile is_digit s1 in
      if ip = [] then None
      else case rest of
             [] \<Rightarrow> Some (of_nat (digits_to_nat ip))
           | c # cs \<Rightarrow>
               if c = CHR ''.''
               then let fp = takeWhile is_digit cs in
                    Some (of_nat (digits_to_nat ip) + of_nat (digits_to_nat fp) / 10 ^ length fp)
               else Some (of_nat (digits_to_nat ip)))"

subsection \<open>\<open>_extract_price\<close>\<close>

definition extract_price :: "string \<Rightarrow> rat option" where
  "extract_price price_text =
     (if price_text = [] then None
      else
        let t = filter (\<lambda>c. is_digit c \<or> c = CHR ''.'' \<or> c = CHR '','') (strip price_text);
            t' =
              (if CHR '','' \<in> set t \<and> CHR ''.'' \<in> set t then
                 (if rindex t (CHR '','') > rindex t (CHR ''.'')
                  then replace_char (CHR '','') (CHR ''.'') (remove_char (CHR ''.'') t)
                  else remove_char (CHR '','') t)
               else if CHR '','' \<in> set t then
                 (if length (after_last (CHR '','') t) = 2
                  then replace_char (CHR '','') (CHR ''.'') t
                  else remove_char (CHR '','') t)
               else t)
        in case py_float t' of
             Some x \<Rightarrow> Some x
           | None \<Rightarrow> first_number t')"

subsection \<open>\<open>_validate_product_data\<close>\<close>

record product_validation =
  is_valid :: bool
  missing_fields :: "string list"
  invalid_fields :: "string list"
  confidence_score :: rat

datatype pyexn = AttributeError

definition required_fields :: "string list" where
  "required_fields = [''name'', ''price'', ''url'']"

definition important_fields :: "string list" where
  "important_fields = [''brand'', ''model'', ''sku'', ''image'']"

text \<open>
  The price check. Everything inside it runs under \<open>try ... except\<close>, so it raises
  nothing: the field is invalid when no price comes out of the text or the price is
  zero, negative or above 10000.
\<close>

definition price_invalid :: "(pyval \<Rightarrow> string) \<Rightarrow> pydict \<Rightarrow> string list" where
  "price_invalid repr data =
     (case map_of data ''price'' of
        None \<Rightarrow> []
      | Some v \<Rightarrow>
          (case extract_price (py_str repr v) of
             None \<Rightarrow> [''price'']
           | Some price \<Rightarrow>
               if price = 0 \<or> price \<le> 0 \<or> price > 10000 then [''price''] else []))"

text \<open>
  The name check: \<open>name = data.get("name") or data.get("title", "")\<close>, then
  \<open>len(name.strip()) < 3\<close>. Only a string has \<open>strip\<close>; on any other value the call
  raises \<open>AttributeError\<close>, which nothing in \<open>_validate_product_data\<close> catches.
\<close>

definition name_or_title :: "pydict \<Rightarrow> pyval" where
  "name_or_title data =
     (let title = (case map_of data ''title'' of None \<Rightarrow> PStr [] | Some v \<Rightarrow> v) in
      case map_of data ''name'' of
        None \<Rightarrow> title
      | Some v \<Rightarrow> if truthy v then v else title)"

definition name_invalid :: "pydict \<Rightarrow> pyexn + string list" where
  "name_invalid data =
     (if has_key data ''name'' \<or> has_key data ''title'' then
        (case name_or_title data of
           PStr name \<Rightarrow> Inr (if length (strip name) < 3 then [''name''] else [])
         | _ \<Rightarrow> Inl AttributeError)
      else Inr [])"

text \<open>The URL check: \<open>url.startswith(("http://", "https://"))\<close>, again on a string only.\<close>

definition url_invalid :: "pydict \<Rightarrow> pyexn + string list" where
  "url_invalid data =
     (case map_of data ''url'' of
        None \<Rightarrow> Inr []
      | Some (PStr url) \<Rightarrow>
          Inr (if \<not> (startswith url ''http://'' \<or> startswith url ''https://'')
               then [''url''] else [])
      | Some _ \<Rightarrow> Inl AttributeError)"

text \<open>
  The score: \<open>max(0, (valid_required * 0.7 + valid_important * 0.3)
  / total_possible_fields - invalid_penalty)\<close>.
\<close>

definition score ::
  "string list \<Rightarrow> string list \<Rightarrow> pydict \<Rightarrow> rat" where
  "score missing invalid data =
     (let total_possible_fields = length required_fields + length important_fields;
          valid_required = length required_fields - length missing;
          valid_important = length (filter (present data) important_fields);
          invalid_penalty = of_nat (length invalid) * (2 / 10)
      in max 0 ((of_nat valid_required * (7 / 10) + of_nat valid_important * (3 / 10))
                  / of_nat total_possible_fields - invalid_penalty))"

definition validate_product_data ::
  "(pyval \<Rightarrow> string) \<Rightarrow> pydict \<Rightarrow> pyexn + product_validation" where
  "validate_product_data repr data =
     (let missing = filter (\<lambda>field. \<not> present data field) required_fields;
          invalid_price = price_invalid repr data
      in case name_invalid data of
           Inl e \<Rightarrow> Inl e
         | Inr invalid_name \<Rightarrow>
             (case url_invalid data of
                Inl e \<Rightarrow> Inl e
              | Inr invalid_url \<Rightarrow>
                  let invalid = invalid_price @ invalid_name @ invalid_url in
                  Inr \<lparr> is_valid = (length missing = 0 \<and> length invalid = 0),
                        missing_fields = missing,
                        invalid_fields = invalid,
                        confidence_score = score missing invalid data \<rparr>))"

text \<open>
  The score as the specification words it, for comparison with \<open>score\<close>: 0.7/3 for
  each required field that is present and not invalid, 0.3/4 for each important field
  that is present, 0.2 off for each invalid field, clamped to the interval from 0 to 1.
\<close>

definition specified_confidence :: "pydict \<Rightarrow> string list \<Rightarrow> rat" where
  "specified_confidence d invalid =
     (let required_part =
            of_nat (length (filter (\<lambda>f. present d f \<and> f \<notin> set invalid) required_fields))
              * ((7 / 10) / 3);
          important_part =
            of_nat (length (filter (present d) important_fields)) * ((3 / 10) / 4);
          penalty = of_nat (length invalid) * (2 / 10)
      in min 1 (max 0 (required_part + important_part - penalty)))"

section \<open>The parsing strategies\<close>

datatype scraping_method =
    OFFICIAL_API
  | JSON_LD
  | SCRIPT_JSON
  | HTML_STRUCTURED
  | HTML_FALLBACK

text \<open>
  \<open>ScrapingResult\<close>. The field \<open>error\<close> holds \<open>str(e)\<close> of a caught exception or a fixed
  message; the text of \<open>str(e)\<close> is the exception's name here.
\<close>

record scraping_result =
  success :: bool
  scraping_method :: scraping_method
  result_data :: "pydict option"
  error :: "string option"
  confidence :: rat

definition failure_result :: "scraping_method \<Rightarrow> string \<Rightarrow> scraping_result" where
  "failure_result m msg =
     \<lparr> success = False, scraping_method = m, result_data = None,
       error = Some msg, confidence = 0 \<rparr>"

fun exn_text :: "pyexn \<Rightarrow> string" where
  "exn_text AttributeError = ''AttributeError''"

text \<open>
  What the strategies read off the page through BeautifulSoup, \<open>re\<close> and \<open>json.loads\<close>
  (libraries, not code of this repository) is the input of the model:
  \<^item> for each \<open>application/ld+json\<close> script, whether it has a string and what
    \<open>json.loads\<close> makes of it;
  \<^item> for each \<open>script\<close> tag, whether it has a string and, for each of the six patterns
    in order, whether the pattern matches and what \<open>json.loads\<close> makes of the match;
  \<^item> for the structured strategy, the first non-empty stripped value the selector
    lists give for title, price, image and sku;
  \<^item> for the fallback strategy, the first price between 10 and 2000 found in the
    page text, the text of the first \<open>h1\<close> and the first image source naming a product.
\<close>

datatype json_script = NoString | DecodeError | Loaded pyval

datatype pattern_match = NoMatch | MatchDecodeError | MatchLoaded pyval

datatype script_tag = EmptyScript | Script "pattern_match list"

record page =
  json_ld_scripts :: "json_script list"
  scripts :: "script_tag list"
  sel_title :: "string option"
  sel_price :: "string option"
  sel_image :: "string option"
  sel_sku :: "string option"
  fallback_price :: "rat option"
  h1_text :: "string option"
  fallback_image :: "string option"

subsection \<open>\<open>_try_json_ld_parsing\<close>\<close>

text \<open>
  The loops return \<open>Inl e\<close> when an exception other than \<open>JSONDecodeError\<close> escapes
  to the outer \<open>except\<close>, \<open>Inr (Some r)\<close> when they return a result and \<open>Inr None\<close>
  when they run to their end. \<open>item.get\<close> exists on a dictionary only.
\<close>

fun json_ld_items :: "(pyval \<Rightarrow> string) \<Rightarrow> pyval list \<Rightarrow> pyexn + scraping_result option" where
  "json_ld_items repr [] = Inr None"
| "json_ld_items repr (item # items) =
     (case item of
        PDict d \<Rightarrow>
          if map_of d ''@type'' = Some (PStr ''Product'')
             \<or> map_of d ''@type'' = Some (PStr ''ProductModel'')
          then (case validate_product_data repr d of
                  Inl e \<Rightarrow> Inl e
                | Inr validated \<Rightarrow>
                    if is_valid validated
                    then Inr (Some \<lparr> success = True, scraping_method = JSON_LD,
                                     result_data = Some d, error = None,
                                     confidence = confidence_score validated \<rparr>)
                    else json_ld_items repr items)
          else json_ld_items repr items
      | _ \<Rightarrow> Inl AttributeError)"

fun json_ld_loop :: "(pyval \<Rightarrow> string) \<Rightarrow> json_script list \<Rightarrow> pyexn + scraping_result option" where
  "json_ld_loop repr [] = Inr None"
| "json_ld_loop repr (NoString # rest) = json_ld_loop repr rest"
| "json_ld_loop repr (DecodeError # rest) = json_ld_loop repr rest"
| "json_ld_loop repr (Loaded v # rest) =
     (let items = (case v of PList xs \<Rightarrow> xs | _ \<Rightarrow> [v]) in
      case json_ld_items repr items of
        Inl e \<Rightarrow> Inl e
      | Inr (Some r) \<Rightarrow> Inr (Some r)
      | Inr None \<Rightarrow> json_ld_loop repr rest)"

definition try_json_ld_parsing :: "(pyval \<Rightarrow> string) \<Rightarrow> page \<Rightarrow> scraping_result" where
  "try_json_ld_parsing repr pg =
     (case json_ld_loop repr (json_ld_scripts pg) of
        Inl e \<Rightarrow> failure_result JSON_LD (exn_text e)
      | Inr (Some r) \<Rightarrow> r
      | Inr None \<Rightarrow> failure_result JSON_LD ''No valid JSON-LD found'')"

subsection \<open>\<open>_extract_product_from_json\<close> and \<open>_try_script_json_parsing\<close>\<close>

definition paths :: "string list list" where
  "paths =
     [[''product''], [''productDetails''], [''data'', ''product''],
      [''props'', ''pageProps'', ''product''], [''initialState'', ''product''],
      [''product'', ''current'']]"

text \<open>Walking one path: \<open>None\<close> is the \<open>break\<close>, \<open>Some v\<close> the value the \<open>else\<close> of the loop sees.\<close>

fun navigate :: "pyval \<Rightarrow> string list \<Rightarrow> pyval option" where
  "navigate current [] = Some current"
| "navigate current (key # keys) =
     (case current of
        PDict d \<Rightarrow> (case map_of d key of None \<Rightarrow> None | Some v \<Rightarrow> navigate v keys)
      | _ \<Rightarrow> None)"

fun extract_along :: "pyval \<Rightarrow> string list list \<Rightarrow> pydict option" where
  "extract_along dat [] = None"
| "extract_along dat (path # rest) =
     (case navigate dat path of
        Some (PDict d) \<Rightarrow>
          if list_ex (has_key d) required_fields then Some d else extract_along dat rest
      | _ \<Rightarrow> extract_along dat rest)"

definition extract_product_from_json :: "pyval \<Rightarrow> pydict option" where
  "extract_product_from_json dat = extract_along dat paths"

fun script_patterns ::
  "(pyval \<Rightarrow> string) \<Rightarrow> pattern_match list \<Rightarrow> pyexn + scraping_result option" where
  "script_patterns repr [] = Inr None"
| "script_patterns repr (NoMatch # rest) = script_patterns repr rest"
| "script_patterns repr (MatchDecodeError # rest) = script_patterns repr rest"
| "script_patterns repr (MatchLoaded v # rest) =
     (case extract_product_from_json v of
        None \<Rightarrow> script_patterns repr rest
      | Some product_data \<Rightarrow>
          if product_data = [] then script_patterns repr rest
          else (case validate_product_data repr product_data of
                  Inl e \<Rightarrow> Inl e
                | Inr validated \<Rightarrow>
                    if confidence_score validated > 5 / 10
                    then Inr (Some \<lparr> success = True, scraping_method = SCRIPT_JSON,
                                     result_data = Some product_data, error = None,
                                     confidence = confidence_score validated \<rparr>)
                    else script_patterns repr rest))"

fun script_loop :: "(pyval \<Rightarrow> string) \<Rightarrow> script_tag list \<Rightarrow> pyexn + scraping_result option" where
  "script_loop repr [] = Inr None"
| "script_loop repr (EmptyScript # rest) = script_loop repr rest"
| "script_loop repr (Script ms # rest) =
     (case script_patterns repr ms of
        Inl e \<Rightarrow> Inl e
      | Inr (Some r) \<Rightarrow> Inr (Some r)
      | Inr None \<Rightarrow> script_loop repr rest)"

definition try_script_json_parsing :: "(pyval \<Rightarrow> string) \<Rightarrow> page \<Rightarrow> scraping_result" where
  "try_script_json_parsing repr pg =
     (case script_loop repr (scripts pg) of
        Inl e \<Rightarrow> failure_result SCRIPT_JSON (exn_text e)
      | Inr (Some r) \<Rightarrow> r
      | Inr None \<Rightarrow> failure_result SCRIPT_JSON ''No valid script JSON found'')"

subsection \<open>\<open>_try_structured_html_parsing\<close>\<close>

definition field_entry :: "string \<Rightarrow> string option \<Rightarrow> pydict" where
  "field_entry k v = (case v of None \<Rightarrow> [] | Some x \<Rightarrow> [(k, PStr x)])"

definition found_factor :: "string option \<Rightarrow> rat" where
  "found_factor v = (case v of None \<Rightarrow> 0 | Some x \<Rightarrow> 1)"

definition try_structured_html_parsing ::
  "(pyval \<Rightarrow> string) \<Rightarrow> page \<Rightarrow> string \<Rightarrow> scraping_result" where
  "try_structured_html_parsing repr pg url =
     (let extracted_data =
            [(''url'', PStr url)] @ field_entry ''title'' (sel_title pg)
              @ field_entry ''price'' (sel_price pg) @ field_entry ''image'' (sel_image pg)
              @ field_entry ''sku'' (sel_sku pg);
          confidence_factors =
            [found_factor (sel_title pg), found_factor (sel_price pg),
             found_factor (sel_image pg), found_factor (sel_sku pg)];
          conf = sum_list confidence_factors / of_nat (length confidence_factors)
      in case validate_product_data repr extracted_data of
           Inl e \<Rightarrow> failure_result HTML_STRUCTURED (exn_text e)
         | Inr validated \<Rightarrow>
             if confidence_score validated > 3 / 10
             then \<lparr> success = True, scraping_method = HTML_STRUCTURED,
                    result_data = Some extracted_data, error = None,
                    confidence = min conf (confidence_score validated) \<rparr>
             else failure_result HTML_STRUCTURED ''Low confidence'')"

subsection \<open>\<open>_try_fallback_html_parsing\<close>\<close>

definition try_fallback_html_parsing ::
  "(pyval \<Rightarrow> string) \<Rightarrow> page \<Rightarrow> string \<Rightarrow> scraping_result" where
  "try_fallback_html_parsing repr pg url =
     (let extracted_data =
            [(''url'', PStr url)]
              @ (case fallback_price pg of None \<Rightarrow> [] | Some p \<Rightarrow> [(''price'', PFloat p)])
              @ (case h1_text pg of
                   None \<Rightarrow> []
                 | Some title \<Rightarrow>
                     if title \<noteq> [] \<and> length title > 5 then [(''title'', PStr title)] else [])
              @ field_entry ''image'' (fallback_image pg)
      in case validate_product_data repr extracted_data of
           Inl e \<Rightarrow> failure_result HTML_FALLBACK (exn_text e)
         | Inr validated \<Rightarrow>
             \<lparr> success = (confidence_score validated > 1 / 10),
               scraping_method = HTML_FALLBACK,
               result_data = Some extracted_data, error = None,
               confidence = confidence_score validated \<rparr>)"

subsection \<open>\<open>_try_multiple_parsing_methods\<close>\<close>

definition try_multiple_parsing_methods ::
  "(pyval \<Rightarrow> string) \<Rightarrow> page \<Rightarrow> string \<Rightarrow> scraping_result" where
  "try_multiple_parsing_methods repr pg url =
     (let r1 = try_json_ld_parsing repr pg in
      if success r1 then r1
      else let r2 = try_script_json_parsing repr pg in
      if success r2 then r2
      else let r3 = try_structured_html_parsing repr pg url in
      if success r3 then r3
      else try_fallback_html_parsing repr pg url)"

subsection \<open>An extraction: fetch, then parse\<close>

text \<open>
  \<open>_try_nike_web_search\<close> of \<open>enhanced_nike_scraper.py\<close> (\<open>_try_stockx_web_search\<close> is the
  same code): the request, then the parsing strategies on the page of the response,
  then the conversion of accepted data into products. \<open>convert\<close> is the retailer's
  \<open>_convert_to_..._products\<close>, \<open>None\<close> when it raises; the \<open>except\<close> of the search turns
  that into the empty list. The result is the list of products, the scraper
  afterwards and the number of \<open>session.get\<close> calls.
\<close>

definition try_web_search ::
  "(pyval \<Rightarrow> string) \<Rightarrow> (pydict \<Rightarrow> scraping_method \<Rightarrow> 'p list option) \<Rightarrow>
   scraper \<Rightarrow> datetime \<Rightarrow> (nat \<Rightarrow> attempt \<times> datetime) \<Rightarrow> datetime \<Rightarrow> page \<Rightarrow> string \<Rightarrow>
   'p list \<times> scraper \<times> nat" where
  "try_web_search repr convert s now fetch t_fail pg search_url =
     (case make_robust_request s now fetch t_fail of
        (None, s', n) \<Rightarrow> ([], s', n)
      | (Some response, s', n) \<Rightarrow>
          let result = try_multiple_parsing_methods repr pg search_url in
          (case result_data result of
             None \<Rightarrow> ([], s', n)
           | Some d \<Rightarrow>
               if success result \<and> d \<noteq> []
               then (case convert d (scraping_method result) of
                       None \<Rightarrow> ([], s', n)
                     | Some products \<Rightarrow> (products, s', n))
               else ([], s', n)))"

section \<open>The products collection and change detection\<close>

text \<open>
  \<open>database/models.py\<close>, \<open>database/connection.py\<close> and \<open>scrapers/scraper_manager.py\<close> of
  the monitoring service. Of \<open>SneakerProduct\<close> the fields that the store and the change
  detector read: the others (brand, model, colorway, url, image, sizes, creation time)
  are carried along unchanged and left out. A price is a Python float: the rational
  value of a double, with every operation on prices rounded by \<open>fl\<close>.
\<close>

datatype retailer =
    NIKE | ADIDAS | FOOTLOCKER | FINISH_LINE | STOCKX | GOAT | STADIUM_GOODS

record sneaker_product =
  name :: string
  sku :: string
  retailer :: retailer
  price :: "rat option"
  is_in_stock :: bool
  last_checked :: datetime

text \<open>
  The \<open>products\<close> collection is the list of its documents in their natural order;
  \<open>find_one\<close> returns the first document that matches. The collection has a unique
  index on \<open>sku\<close>, so an insert of a second document with a \<open>sku\<close> already there raises
  \<open>DuplicateKeyError\<close>.
\<close>

type_synonym products = "sneaker_product list"

datatype db_error = DuplicateKeyError

fun update_first :: "('a \<Rightarrow> bool) \<Rightarrow> 'a \<Rightarrow> 'a list \<Rightarrow> 'a list" where
  "update_first P y [] = []"
| "update_first P y (x # xs) = (if P x then y # xs else x # update_first P y xs)"

text \<open>
  \<open>upsert_product\<close>: stamps the product with the current time, then
  \<open>find_one_and_update\<close> with \<open>upsert=True\<close> on the filter \<open>{sku, retailer}\<close>. The \<open>$set\<close>
  carries every field of the product, so the document matched becomes the product;
  with no match the product is inserted.
\<close>

definition upsert_product ::
  "products \<Rightarrow> sneaker_product \<Rightarrow> datetime \<Rightarrow> db_error + products \<times> sneaker_product" where
  "upsert_product db product now =
     (let p = product\<lparr> last_checked := now \<rparr>;
          matches = (\<lambda>d. sku d = sku p \<and> retailer d = retailer p)
      in if list_ex matches db then Inr (update_first matches p db, p)
         else if list_ex (\<lambda>d. sku d = sku p) db then Inl DuplicateKeyError
         else Inr (db @ [p], p))"

text \<open>
  \<open>_search_retailer\<close>: every product the scraper returns is stored before the list is
  returned; each comes with the time of its \<open>upsert_product\<close> call. An exception makes
  the search return the empty list, with the products stored so far kept.
\<close>

fun store_products ::
  "products \<Rightarrow> (sneaker_product \<times> datetime) list \<Rightarrow> db_error + products \<times> sneaker_product list" where
  "store_products db [] = Inr (db, [])"
| "store_products db ((product, now) # rest) =
     (case upsert_product db product now of
        Inl e \<Rightarrow> Inl e
      | Inr (db1, p) \<Rightarrow>
          (case store_products db1 rest of
             Inl e \<Rightarrow> Inl e
           | Inr (db2, ps) \<Rightarrow> Inr (db2, p # ps)))"

subsection \<open>\<open>_is_restock\<close>\<close>

definition is_restock :: "products \<Rightarrow> sneaker_product \<Rightarrow> datetime \<Rightarrow> bool" where
  "is_restock db product now =
     (if \<not> is_in_stock product then False
      else
        case find (\<lambda>d. sku d = sku product \<and> retailer d = retailer product
                         \<and> last_checked d < now - minutes 30) db of
          None \<Rightarrow> False
        | Some previous_product \<Rightarrow> if \<not> is_in_stock previous_product then True else False)"

subsection \<open>\<open>_is_price_drop\<close>\<close>

text \<open>
  \<open>not product.price\<close> holds for \<open>None\<close> and for \<open>0.0\<close>; so does
  \<open>previous_product.get("price")\<close>. The literal \<open>0.95\<close> is the double nearest to 95/100,
  and the product \<open>previous_price * 0.95\<close> is rounded.
\<close>

definition is_price_drop :: "products \<Rightarrow> sneaker_product \<Rightarrow> datetime \<Rightarrow> bool" where
  "is_price_drop db product now =
     (case price product of
        None \<Rightarrow> False
      | Some new_price \<Rightarrow>
          if new_price = 0 then False
          else
            case find (\<lambda>d. sku d = sku product \<and> retailer d = retailer product
                             \<and> price d \<noteq> None
                             \<and> last_checked d < now - hours 1) db of
              None \<Rightarrow> False
            | Some previous_product \<Rightarrow>
                (case price previous_product of
                   None \<Rightarrow> False
                 | Some previous_price \<Rightarrow>
                     if previous_price \<noteq> 0 \<and> new_price < fl (previous_price * fl (95 / 100))
                     then True else False))"

text \<open>
  One monitoring cycle for the products of one retailer, as \<open>_monitor_keyword\<close> runs
  it: \<open>search_all_retailers\<close> stores the scraped products through \<open>_search_retailer\<close>,
  and only then \<open>_check_tracked_sneaker\<close> asks \<open>_is_restock\<close> and \<open>_is_price_drop\<close> about
  each product returned, at the later time \<open>t_check\<close>. The result is the products for
  which a restock alert and a price-drop alert is created.
\<close>

definition monitor_cycle ::
  "products \<Rightarrow> (sneaker_product \<times> datetime) list \<Rightarrow> datetime \<Rightarrow>
   sneaker_product list \<times> sneaker_product list" where
  "monitor_cycle db scraped t_check =
     (case store_products db scraped of
        Inl e \<Rightarrow> ([], [])
      | Inr (db', current_products) \<Rightarrow>
          (filter (\<lambda>p. is_restock db' p t_check) current_products,
           filter (\<lambda>p. is_price_drop db' p t_check) current_products))"

subsection \<open>Resell data and \<open>_calculate_flip_opportunity\<close>\<close>

text \<open>
  \<open>ResellData\<close>: its fields \<open>sneaker_name\<close>, \<open>price\<close> (here \<open>resell_price\<close>, the
  product's field having the name \<open>price\<close> already) and \<open>created_at\<close>.
\<close>

record resell_data =
  sneaker_name :: string
  resell_price :: rat
  created_at :: datetime

text \<open>
  \<open>get_resell_data\<close>: the documents whose \<open>sneaker_name\<close> matches the product's name taken
  as a case-insensitive regular expression (\<open>matches\<close>, MongoDB's doing), newest
  first, at most \<open>limit\<close> of them.
\<close>

definition get_resell_data ::
  "(string \<Rightarrow> string \<Rightarrow> bool) \<Rightarrow> resell_data list \<Rightarrow> string \<Rightarrow> nat \<Rightarrow> resell_data list" where
  "get_resell_data matches coll nm limit =
     take limit (rev (sort_key created_at (filter (\<lambda>r. matches nm (sneaker_name r)) coll)))"

record flip_data =
  retail_price :: rat
  avg_resell_price :: rat
  margin :: rat
  margin_percentage :: rat
  sample_size :: nat

text \<open>
  \<open>_calculate_flip_opportunity\<close>. The resale collection is \<open>None\<close> when the query raises
  (the database cannot be reached, or the product's name is not a regular expression):
  the \<open>except\<close> branch logs and the function returns \<open>None\<close>. The prices are floats:
  \<open>sum\<close> is \<open>py_sum\<close>, the division by the number of samples, the subtraction, the
  division by the price and the multiplication by 100 are each rounded to a double.
\<close>

definition calculate_flip_opportunity ::
  "(rat list \<Rightarrow> rat) \<Rightarrow> (string \<Rightarrow> string \<Rightarrow> bool) \<Rightarrow> resell_data list option \<Rightarrow>
   sneaker_product \<Rightarrow> flip_data option" where
  "calculate_flip_opportunity py_sum matches store product =
     (case price product of
        None \<Rightarrow> None
      | Some p \<Rightarrow>
          if p = 0 \<or> \<not> is_in_stock product then None
          else
            (case store of
              None \<Rightarrow> None
            | Some coll \<Rightarrow>
                let resell = get_resell_data matches coll (name product) 10 in
                if resell = [] then None
                else
                  let total_price = py_sum (map resell_price resell);
                      avg = fl (total_price / of_nat (length resell));
                      mrg = fl (avg - p);
                      pct = fl (fl (mrg / p) * 100)
                  in if pct \<ge> 25
                     then Some \<lparr> retail_price = p, avg_resell_price = avg, margin = mrg,
                                 margin_percentage = pct, sample_size = length resell \<rparr>
                     else None))"

text \<open>
  The flip branch of \<open>_check_tracked_sneaker\<close>: an alert is created when
  \<open>flip_data and flip_data["margin_percentage"] >= 25\<close>.
\<close>

definition flip_fires ::
  "(rat list \<Rightarrow> rat) \<Rightarrow> (string \<Rightarrow> string \<Rightarrow> bool) \<Rightarrow> resell_data list option \<Rightarrow>
   sneaker_product \<Rightarrow> bool" where
  "flip_fires py_sum matches store product =
     (case calculate_flip_opportunity py_sum matches store product of
        None \<Rightarrow> False
      | Some fd \<Rightarrow> margin_percentage fd \<ge> 25)"

section \<open>The alert sender and its cooldown\<close>

text \<open>
  \<open>bot/alert_sender.py\<close>. \<open>AlertSender.__init__\<close> sets \<open>alert_cooldown = 300\<close>, commented
  "5 minutes between same alerts to same user", and nothing assigns it later.
\<close>

datatype alert_type =
    RESTOCK | PRICE_DROP | RESELL_DEAL | FLIP_OPPORTUNITY | EARLY_ACCESS

definition sender_alert_cooldown :: int where
  "sender_alert_cooldown = 300"

text \<open>
  \<open>AlertHistory\<close>, the record \<open>_log_alert\<close> writes: the fields \<open>user_id\<close>, \<open>sneaker_name\<close>,
  \<open>alert_type\<close> and \<open>created_at\<close>, the last three prefixed with \<open>ah_\<close> (retailer and
  price are left out).
\<close>

record alert_history =
  user_id :: int
  ah_sneaker_name :: string
  ah_alert_type :: alert_type
  ah_created_at :: datetime

text \<open>
  Modelled from the spec: \<open>db_manager.get_last_alert_for_sneaker\<close> and
  \<open>db_manager.add_alert_history\<close> are called by the sender, and their code is not among
  the source files. The specification has the persistence interface
  \<open>AppendAlertHistory\<close> and \<open>GetAlertHistory(recipient, item, kind, since)\<close>: the history
  is the list of the alerts logged, and the last alert for a recipient, an item and a
  kind is the one among them with the greatest creation time.
\<close>

fun latest :: "alert_history list \<Rightarrow> alert_history option" where
  "latest [] = None"
| "latest (a # h) =
     (case latest h of
        None \<Rightarrow> Some a
      | Some b \<Rightarrow> if ah_created_at a < ah_created_at b then Some b else Some a)"

definition same_alert :: "int \<Rightarrow> string \<Rightarrow> alert_type \<Rightarrow> alert_history \<Rightarrow> bool" where
  "same_alert u nm ty a = (user_id a = u \<and> ah_sneaker_name a = nm \<and> ah_alert_type a = ty)"

definition get_last_alert_for_sneaker ::
  "alert_history list \<Rightarrow> int \<Rightarrow> string \<Rightarrow> alert_type \<Rightarrow> alert_history option" where
  "get_last_alert_for_sneaker hist u nm ty = latest (filter (same_alert u nm ty) hist)"

definition add_alert_history :: "alert_history list \<Rightarrow> alert_history \<Rightarrow> alert_history list" where
  "add_alert_history hist a = hist @ [a]"

text \<open>
  \<open>_is_in_cooldown\<close>. \<open>read_ok\<close> is whether the database call returns: when it raises,
  the \<open>except\<close> branch logs the error and answers \<open>False\<close>.
\<close>

definition is_in_cooldown ::
  "alert_history list \<Rightarrow> bool \<Rightarrow> int \<Rightarrow> string \<Rightarrow> alert_type \<Rightarrow> datetime \<Rightarrow> bool" where
  "is_in_cooldown hist read_ok u nm ty now =
     (if \<not> read_ok then False
      else
        case get_last_alert_for_sneaker hist u nm ty of
          None \<Rightarrow> False
        | Some last_alert \<Rightarrow> now - ah_created_at last_alert < seconds sender_alert_cooldown)"

text \<open>
  \<open>_log_alert\<close>: the record is stamped with the current time and added to the history;
  when that raises, the \<open>except\<close> branch logs the error and nothing is added.
\<close>

definition log_alert ::
  "alert_history list \<Rightarrow> int \<Rightarrow> string \<Rightarrow> alert_type \<Rightarrow> datetime \<Rightarrow> bool \<Rightarrow> alert_history list"
where
  "log_alert hist u nm ty now write_ok =
     (if write_ok
      then add_alert_history hist
             \<lparr> user_id = u, ah_sneaker_name = nm, ah_alert_type = ty, ah_created_at = now \<rparr>
      else hist)"

text \<open>
  The senders. \<open>send_restock_alert\<close>, \<open>send_price_drop_alert\<close> and
  \<open>send_resell_deal_alert\<close> ask \<open>_is_in_cooldown\<close> before they send;
  \<open>send_early_access_alert\<close> has the same loop without that question.
  (\<open>send_flip_opportunity_alert\<close> does not ask either; it sends one message for a list
  of opportunities and is left out.)
\<close>

fun checks_cooldown :: "alert_type \<Rightarrow> bool" where
  "checks_cooldown RESTOCK = True"
| "checks_cooldown PRICE_DROP = True"
| "checks_cooldown RESELL_DEAL = True"
| "checks_cooldown FLIP_OPPORTUNITY = False"
| "checks_cooldown EARLY_ACCESS = False"

text \<open>
  One round of the loop \<open>for user_id in users\<close> of a sender. What the round gets from
  outside: the answer of the quota check \<open>_can_send_alert\<close> (together with the premium
  check before it, where there is one), whether the history can be read and the time
  of the cooldown check, whether \<open>bot.send_message\<close> goes through (a \<open>TelegramError\<close>
  or any other exception skips the user) and when, whether the history can be written
  and the time \<open>_log_alert\<close> stamps on the record.
\<close>

record delivery =
  to_user :: int
  can_send :: bool
  read_ok :: bool
  check_time :: datetime
  send_ok :: bool
  send_time :: datetime
  log_ok :: bool
  log_time :: datetime

text \<open>A message that \<open>bot.send_message\<close> has delivered.\<close>

record message =
  msg_user :: int
  msg_sneaker_name :: string
  msg_alert_type :: alert_type
  msg_time :: datetime

text \<open>The alert history in the database and the messages delivered so far.\<close>

record sender_state =
  history :: "alert_history list"
  messages :: "message list"

definition no_alerts :: sender_state where
  "no_alerts = \<lparr> history = [], messages = [] \<rparr>"

text \<open>
  The round awaits three times: the checks, the send and the log. \<open>may_send\<close> is the
  part up to the send, which reads the history; \<open>send_and_log\<close> is the rest, which
  returns whether the message was sent (\<open>sent_count += 1\<close>, also when the log fails).
\<close>

definition may_send :: "alert_history list \<Rightarrow> string \<Rightarrow> alert_type \<Rightarrow> delivery \<Rightarrow> bool" where
  "may_send hist nm ty d =
     (if \<not> can_send d then False
      else if checks_cooldown ty
              \<and> is_in_cooldown hist (read_ok d) (to_user d) nm ty (check_time d) then False
      else True)"

definition send_and_log ::
  "sender_state \<Rightarrow> string \<Rightarrow> alert_type \<Rightarrow> delivery \<Rightarrow> sender_state \<times> bool" where
  "send_and_log st nm ty d =
     (if \<not> send_ok d then (st, False)
      else
        (\<lparr> history = log_alert (history st) (to_user d) nm ty (log_time d) (log_ok d),
           messages = messages st
             @ [\<lparr> msg_user = to_user d, msg_sneaker_name = nm, msg_alert_type = ty,
                  msg_time = send_time d \<rparr>] \<rparr>, True))"

text \<open>
  A round that no other round overlaps: the history it reads is the history it later
  writes to.
\<close>

definition send_to_user ::
  "sender_state \<Rightarrow> string \<Rightarrow> alert_type \<Rightarrow> delivery \<Rightarrow> sender_state \<times> bool" where
  "send_to_user st nm ty d =
     (if may_send (history st) nm ty d then send_and_log st nm ty d else (st, False))"

text \<open>The whole loop: the state afterwards and \<open>sent_count\<close>.\<close>

fun send_alert_to_users ::
  "sender_state \<Rightarrow> string \<Rightarrow> alert_type \<Rightarrow> delivery list \<Rightarrow> sender_state \<times> nat" where
  "send_alert_to_users st nm ty [] = (st, 0)"
| "send_alert_to_users st nm ty (d # ds) =
     (case send_to_user st nm ty d of
        (st1, sent) \<Rightarrow>
          (case send_alert_to_users st1 nm ty ds of
             (st2, n) \<Rightarrow> (st2, (if sent then 1 else 0) + n)))"

text \<open>
  A sequence of such calls one after the other, none overlapping another, each for a
  sneaker name, an alert type and its users.
\<close>

fun send_calls ::
  "sender_state \<Rightarrow> (string \<times> alert_type \<times> delivery list) list \<Rightarrow> sender_state" where
  "send_calls st [] = st"
| "send_calls st ((nm, ty, ds) # calls) =
     send_calls (fst (send_alert_to_users st nm ty ds)) calls"

text \<open>
  A round in which the database answers and time does not run backwards: the history
  is read and written, and the check, the send and the log follow one another.
\<close>

definition in_order :: "delivery \<Rightarrow> bool" where
  "in_order d =
     (read_ok d \<and> log_ok d \<and> check_time d \<le> send_time d \<and> send_time d \<le> log_time d)"

text \<open>
  Two messages of one user, sneaker name and alert type, the type being one with a
  cooldown check, lie at least 300 seconds apart; so do all such messages of a list.
\<close>

definition same_key :: "message \<Rightarrow> message \<Rightarrow> bool" where
  "same_key a b =
     (msg_user a = msg_user b \<and> msg_sneaker_name a = msg_sneaker_name b
      \<and> msg_alert_type a = msg_alert_type b)"

definition far_apart :: "message \<Rightarrow> message \<Rightarrow> bool" where
  "far_apart a b =
     (if same_key a b \<and> checks_cooldown (msg_alert_type a)
      then \<bar>msg_time b - msg_time a\<bar> \<ge> seconds sender_alert_cooldown
      else True)"

fun spaced :: "message list \<Rightarrow> bool" where
  "spaced [] = True"
| "spaced (a # h) = (list_all (far_apart a) h \<and> spaced h)"

text \<open>
  Every message of a type with a cooldown check has a record in the history, of its
  user, sneaker name and type, stamped no earlier than the message was sent.
\<close>

definition logged :: "alert_history list \<Rightarrow> message \<Rightarrow> bool" where
  "logged hist m =
     (if checks_cooldown (msg_alert_type m)
      then list_ex (\<lambda>a. same_alert (msg_user m) (msg_sneaker_name m) (msg_alert_type m) a
                          \<and> msg_time m \<le> ah_created_at a) hist
      else True)"

definition well_logged :: "sender_state \<Rightarrow> bool" where
  "well_logged st = (list_all (logged (history st)) (messages st) \<and> spaced (messages st))"

section \<open>The monitoring engine's alert queue\<close>

text \<open>
  \<open>app/monitoring_engine.py\<close>. The engine's queue is \<open>asyncio.Queue()\<close>, built with no
  \<open>maxsize\<close>. Of the standard library's queue: \<open>maxsize\<close> defaults to 0; the queue is
  full when \<open>maxsize\<close> is positive and that many items are in it; \<open>put\<close> waits while the
  queue is full (\<open>None\<close> here) and appends otherwise; \<open>get\<close> waits while the queue is
  empty (\<open>None\<close> here) and takes the oldest item otherwise.
\<close>

record 'a queue =
  maxsize :: int
  items :: "'a list"

definition Queue :: "int \<Rightarrow> 'a queue" where
  "Queue n = \<lparr> maxsize = n, items = [] \<rparr>"

definition full :: "'a queue \<Rightarrow> bool" where
  "full q = (if maxsize q \<le> 0 then False else int (length (items q)) \<ge> maxsize q)"

definition put :: "'a queue \<Rightarrow> 'a \<Rightarrow> 'a queue option" where
  "put q x = (if full q then None else Some (q\<lparr> items := items q @ [x] \<rparr>))"

definition get :: "'a queue \<Rightarrow> ('a \<times> 'a queue) option" where
  "get q = (case items q of [] \<Rightarrow> None | x # xs \<Rightarrow> Some (x, q\<lparr> items := xs \<rparr>))"

text \<open>\<open>MonitoringEngine.__init__\<close>: \<open>self.alert_queue = asyncio.Queue()\<close>.\<close>

definition alert_queue :: "'a queue" where
  "alert_queue = Queue 0"

text \<open>
  \<open>monitor_sneakers\<close> puts the alerts of a cycle on the queue one after the other;
  \<open>None\<close> when a \<open>put\<close> has to wait.
\<close>

fun put_all :: "'a queue \<Rightarrow> 'a list \<Rightarrow> 'a queue option" where
  "put_all q [] = Some q"
| "put_all q (x # xs) = (case put q x of None \<Rightarrow> None | Some q' \<Rightarrow> put_all q' xs)"

text \<open>
  The users the engine asks about, with \<open>User.is_premium\<close> and \<open>User.can_send_alert\<close> of
  \<open>database/models.py\<close>. \<open>current_month\<close> is \<open>datetime.utcnow().replace(day=1)\<close>, computed
  by the caller.
\<close>

datatype user_tier = FREE | PREMIUM

record user =
  tier :: user_tier
  subscription_expires_at :: "datetime option"
  alerts_sent_this_month :: int
  alerts_reset_date :: datetime

definition is_premium :: "user \<Rightarrow> datetime \<Rightarrow> bool" where
  "is_premium u now =
     (if tier u = PREMIUM
      then (case subscription_expires_at u of None \<Rightarrow> True | Some e \<Rightarrow> now < e)
      else False)"

definition can_send_alert :: "user \<Rightarrow> datetime \<Rightarrow> datetime \<Rightarrow> bool" where
  "can_send_alert u now current_month =
     (if is_premium u now then True
      else (if alerts_reset_date u < current_month then 0 else alerts_sent_this_month u) < 5)"

text \<open>
  An alert on the queue: the fields of \<open>alert_data\<close> that identify it.
\<close>

record alert_data =
  user_telegram_id :: int
  product_sku :: string
  alert_kind :: alert_type

text \<open>
  What the handling of one alert gets from outside: the time and the current month,
  whether the user lookup returns, whether the message goes out (the affiliate link is
  built and \<open>send_message\<close> returns) and whether \<open>create_alert\<close> stores the alert.
\<close>

record handling =
  at_time :: datetime
  month_start :: datetime
  lookup_ok :: bool
  message_ok :: bool
  store_ok :: bool

text \<open>
  \<open>_send_alert\<close> looks the user up, asks \<open>can_send_alert\<close>, sends the message and stores
  the alert, which adds one to the user's monthly count. Every exception on the way is
  caught and logged, and the rest of the function is skipped. It consults no alert
  history and no cooldown. The result is the users afterwards and whether the message
  was sent.
\<close>

definition send_alert ::
  "(int \<rightharpoonup> user) \<Rightarrow> alert_data \<Rightarrow> handling \<Rightarrow> (int \<rightharpoonup> user) \<times> bool" where
  "send_alert users a h =
     (if \<not> lookup_ok h then (users, False)
      else
        case users (user_telegram_id a) of
          None \<Rightarrow> (users, False)
        | Some u \<Rightarrow>
            if \<not> can_send_alert u (at_time h) (month_start h) then (users, False)
            else if \<not> message_ok h then (users, False)
            else if \<not> store_ok h then (users, True)
            else (users(user_telegram_id a \<mapsto>
                    u\<lparr> alerts_sent_this_month := alerts_sent_this_month u + 1 \<rparr>), True))"

text \<open>
  \<open>process_alerts\<close>, the one consumer: it takes the oldest alert, sends it, and goes
  on until the queue is empty, where \<open>get\<close> waits. \<open>clock n\<close> is what the \<open>n\<close>-th alert
  handled gets from outside. The result is the users afterwards and the alerts
  handled, in the order handled, each with whether it was sent.
\<close>

function process_alerts ::
  "(int \<rightharpoonup> user) \<Rightarrow> alert_data queue \<Rightarrow> (nat \<Rightarrow> handling) \<Rightarrow> nat \<Rightarrow>
   (int \<rightharpoonup> user) \<times> (alert_data \<times> bool) list" where
  "process_alerts users q clock n =
     (case get q of
        None \<Rightarrow> (users, [])
      | Some (a, q') \<Rightarrow>
          (case send_alert users a (clock n) of
             (users', sent) \<Rightarrow>
               (case process_alerts users' q' clock (Suc n) of
                  (users'', handled) \<Rightarrow> (users'', (a, sent) # handled))))"
  by pat_completeness auto
termination
  by (relation "measure (\<lambda>(users, q, clock, n). length (items q))")
     (auto simp: get_def split: list.splits)

declare process_alerts.simps [simp del]

section \<open>Health alerts and their cooldown\<close>

text \<open>
  \<open>scrapers/scraper_health_monitor.py\<close>. \<open>ScraperHealthMonitor.__init__\<close> sets
  \<open>alert_cooldown = 300\<close>, commented "5 minutes between same alerts", and nothing assigns
  it later. Of \<open>ScraperHealthMetrics\<close> and \<open>HealthAlert\<close> the fields that
  \<open>_check_for_alerts\<close> reads and sets: \<open>retailer\<close>, \<open>status\<close>, \<open>error_patterns\<close>, and
  \<open>retailer\<close>, \<open>alert_type\<close>, \<open>severity\<close>, \<open>timestamp\<close> (a field name that another record
  has already is prefixed: \<open>hm_retailer\<close>, \<open>ha_retailer\<close>, \<open>ha_alert_type\<close>).
\<close>

datatype health_status = HEALTHY | WARNING | CRITICAL | DOWN

definition monitor_alert_cooldown :: int where
  "monitor_alert_cooldown = 300"

record scraper_health_metrics =
  hm_retailer :: string
  status :: health_status
  error_patterns :: "string list"

record health_alert =
  ha_retailer :: string
  ha_alert_type :: string
  severity :: health_status
  timestamp :: datetime

text \<open>The list \<open>alerts_to_send\<close> that \<open>_check_for_alerts\<close> builds.\<close>

definition alerts_to_send :: "scraper_health_metrics \<Rightarrow> datetime \<Rightarrow> health_alert list" where
  "alerts_to_send metrics now =
     (if status metrics = CRITICAL \<or> status metrics = DOWN
      then [\<lparr> ha_retailer = hm_retailer metrics, ha_alert_type = ''status_critical'',
               severity = status metrics, timestamp = now \<rparr>]
      else [])
     @ (if ''site_changes'' \<in> set (error_patterns metrics)
        then [\<lparr> ha_retailer = hm_retailer metrics, ha_alert_type = ''site_changes'',
                 severity = WARNING, timestamp = now \<rparr>]
        else [])
     @ (if ''rate_limiting'' \<in> set (error_patterns metrics)
        then [\<lparr> ha_retailer = hm_retailer metrics, ha_alert_type = ''rate_limiting'',
                 severity = WARNING, timestamp = now \<rparr>]
        else [])"

text \<open>
  \<open>_check_for_alerts\<close> on the dictionary \<open>last_alerts\<close>, keyed by retailer alone. The
  function first reads the retailer's entry and builds its list of alerts, empty
  when the entry is less than 300 seconds old (\<open>alerts_due\<close>). Then every alert of the
  list is handed to \<open>_send_alert\<close>, which stores and announces it and catches its own
  exceptions, and after each the retailer's entry is set to \<open>now\<close> (\<open>record_alerts\<close>).
  The function awaits \<open>_send_alert\<close>, so that other code can run between the read and
  the write.
\<close>

definition alerts_due ::
  "(string \<rightharpoonup> datetime) \<Rightarrow> scraper_health_metrics \<Rightarrow> datetime \<Rightarrow> health_alert list" where
  "alerts_due last_alerts metrics now =
     (let in_cooldown =
            (case last_alerts (hm_retailer metrics) of
               None \<Rightarrow> False
             | Some last_alert \<Rightarrow> now - last_alert < seconds monitor_alert_cooldown)
      in if in_cooldown then [] else alerts_to_send metrics now)"

definition record_alerts ::
  "(string \<rightharpoonup> datetime) \<Rightarrow> string \<Rightarrow> health_alert list \<Rightarrow> datetime \<Rightarrow> (string \<rightharpoonup> datetime)"
where
  "record_alerts last_alerts retailer_name alerts now =
     (if alerts = [] then last_alerts else last_alerts(retailer_name \<mapsto> now))"

text \<open>
  A check that no other check overlaps: the dictionary it reads is the one it writes
  to. The result is the dictionary afterwards and the alerts raised.
\<close>

definition check_for_alerts ::
  "(string \<rightharpoonup> datetime) \<Rightarrow> scraper_health_metrics \<Rightarrow> datetime \<Rightarrow>
   (string \<rightharpoonup> datetime) \<times> health_alert list" where
  "check_for_alerts last_alerts metrics now =
     (let alerts = alerts_due last_alerts metrics now
      in (record_alerts last_alerts (hm_retailer metrics) alerts now, alerts))"

text \<open>
  The checks of the monitor over time, one after the other: \<open>check_scraper_health\<close>
  calls \<open>_check_for_alerts\<close> once per scraper and run. The result is the dictionary
  afterwards and all alerts raised, in order.
\<close>

fun run_checks ::
  "(string \<rightharpoonup> datetime) \<Rightarrow> (scraper_health_metrics \<times> datetime) list \<Rightarrow>
   (string \<rightharpoonup> datetime) \<times> health_alert list" where
  "run_checks last_alerts [] = (last_alerts, [])"
| "run_checks last_alerts ((metrics, now) # rest) =
     (case check_for_alerts last_alerts metrics now of
        (last_alerts1, raised) \<Rightarrow>
          (case run_checks last_alerts1 rest of
             (last_alerts2, later) \<Rightarrow> (last_alerts2, raised @ later)))"

text \<open>
  Checks that overlap, as two runs of \<open>check_scraper_health\<close> at the same time make
  them: every check has read the dictionary before any of them has sent its first
  alert and written its entry.
\<close>

definition overlapped_checks ::
  "(string \<rightharpoonup> datetime) \<Rightarrow> (scraper_health_metrics \<times> datetime) list \<Rightarrow>
   (string \<rightharpoonup> datetime) \<times> health_alert list" where
  "overlapped_checks last_alerts checks =
     (foldl (\<lambda>la (metrics, now).
               record_alerts la (hm_retailer metrics) (alerts_due last_alerts metrics now) now)
        last_alerts checks,
      concat (map (\<lambda>(metrics, now). alerts_due last_alerts metrics now) checks))"

text \<open>
  In a list of alerts in the order raised, every later alert of the same retailer and
  type comes at least 300 seconds after the earlier one.
\<close>

definition later_enough :: "health_alert \<Rightarrow> health_alert \<Rightarrow> bool" where
  "later_enough a b =
     (if ha_retailer b = ha_retailer a \<and> ha_alert_type b = ha_alert_type a
      then timestamp b - timestamp a \<ge> seconds monitor_alert_cooldown
      else True)"

fun alerts_spaced :: "health_alert list \<Rightarrow> bool" where
  "alerts_spaced [] = True"
| "alerts_spaced (a # as) = (list_all (later_enough a) as \<and> alerts_spaced as)"

text \<open>Every alert raised so far is no later than its retailer's entry in \<open>last_alerts\<close>.\<close>

definition covered :: "(string \<rightharpoonup> datetime) \<Rightarrow> health_alert list \<Rightarrow> bool" where
  "covered last_alerts raised =
     list_all (\<lambda>a. case last_alerts (ha_retailer a) of
                     None \<Rightarrow> False
                   | Some t \<Rightarrow> timestamp a \<le> t) raised"

section \<open>Properties of the circuit breaker\<close>

lemma attempt_returns_iff: "attempt_returns a \<longleftrightarrow> a = Response 200"
  by (cases a) auto

lemma retry_loop_all_fail:
  "(\<And>j. j < k \<Longrightarrow> \<not> attempt_returns (fst (fetch (i + j)))) \<Longrightarrow>
   retry_loop fetch i k s = (None, s, k)"
proof (induction k arbitrary: i)
  case 0
  then show ?case by simp
next
  case (Suc k)
  have first: "\<not> attempt_returns (fst (fetch i))"
    using Suc.prems [of 0] by simp
  have rest: "retry_loop fetch (Suc i) k s = (None, s, k)"
  proof (rule Suc.IH)
    fix j assume "j < k"
    then show "\<not> attempt_returns (fst (fetch (Suc i + j)))"
      using Suc.prems [of "Suc j"] by simp
  qed
  show ?case using first rest by (simp add: case_prod_beta)
qed

lemma retry_loop_some_returns:
  "j < k \<Longrightarrow> attempt_returns (fst (fetch (i + j))) \<Longrightarrow>
   \<exists>t n. retry_loop fetch i k s = (Some 200, record_success s t, n) \<and> 0 < n \<and> n \<le> k"
proof (induction k arbitrary: i j)
  case 0
  then show ?case by simp
next
  case (Suc k)
  show ?case
  proof (cases "attempt_returns (fst (fetch i))")
    case True
    then show ?thesis by (auto simp: case_prod_beta)
  next
    case False
    then have "j \<noteq> 0" using Suc.prems(2) by (cases j) auto
    then obtain j' where j': "j = Suc j'" by (cases j) auto
    have "\<exists>t n. retry_loop fetch (Suc i) k s = (Some 200, record_success s t, n) \<and> 0 < n \<and> n \<le> k"
      using Suc.IH [of j' "Suc i"] Suc.prems j' by simp
    then show ?thesis using False by (auto simp: case_prod_beta)
  qed
qed

lemma request_short_circuit:
  "is_circuit_breaker_open s now \<Longrightarrow> make_robust_request s now fetch tf = (None, s, 0)"
  by (simp add: make_robust_request_def)

lemma request_failure:
  assumes "\<not> is_circuit_breaker_open s now"
    and "\<And>j. j < 3 \<Longrightarrow> \<not> attempt_returns (fst (fetch j))"
  shows "make_robust_request s now fetch tf =
           (None, record_failure (s\<lparr> total_requests := total_requests s + 1 \<rparr>) tf, 3)"
proof -
  have "retry_loop fetch 0 3 (s\<lparr> total_requests := total_requests s + 1 \<rparr>) =
          (None, s\<lparr> total_requests := total_requests s + 1 \<rparr>, 3)"
    by (rule retry_loop_all_fail) (simp add: assms(2))
  then show ?thesis using assms(1)
    by (simp add: make_robust_request_def max_retries_def)
qed

lemma request_success:
  assumes "\<not> is_circuit_breaker_open s now"
    and "j < 3" and "attempt_returns (fst (fetch j))"
  shows "\<exists>t n. make_robust_request s now fetch tf =
           (Some 200, record_success (s\<lparr> total_requests := total_requests s + 1 \<rparr>) t, n)
           \<and> 0 < n \<and> n \<le> 3"
proof -
  obtain t n where
    "retry_loop fetch 0 3 (s\<lparr> total_requests := total_requests s + 1 \<rparr>) =
       (Some 200, record_success (s\<lparr> total_requests := total_requests s + 1 \<rparr>) t, n)"
    and "0 < n" and "n \<le> 3"
    using retry_loop_some_returns
            [of j 3 fetch 0 "s\<lparr> total_requests := total_requests s + 1 \<rparr>"] assms(2,3)
    by auto
  then show ?thesis using assms(1)
    by (auto simp: make_robust_request_def max_retries_def)
qed

lemma request_calls_fetch:
  assumes "\<not> is_circuit_breaker_open s now"
  shows "0 < snd (snd (make_robust_request s now fetch tf))"
proof (cases "\<exists>j<3. attempt_returns (fst (fetch j))")
  case True
  then obtain j where "j < 3" and "attempt_returns (fst (fetch j))" by blast
  then show ?thesis
    using request_success [of s now j fetch tf] assms by auto
next
  case False
  then have "\<And>j. j < 3 \<Longrightarrow> \<not> attempt_returns (fst (fetch j))" by blast
  then show ?thesis
    using request_failure [of s now fetch tf] assms by simp
qed

lemma closed_after_success: "\<not> is_circuit_breaker_open (record_success s t) now"
  by (simp add: is_circuit_breaker_open_def record_success_def circuit_breaker_threshold_def)

lemma init_scraper_consistent: "breaker_consistent init_scraper"
  by (simp add: breaker_consistent_def init_scraper_def)

lemma request_keeps_consistent:
  assumes "breaker_consistent s"
  shows "breaker_consistent (fst (snd (make_robust_request s now fetch tf)))"
proof (cases "is_circuit_breaker_open s now")
  case True
  then show ?thesis using assms by (simp add: request_short_circuit)
next
  case closed: False
  show ?thesis
  proof (cases "\<exists>j<3. attempt_returns (fst (fetch j))")
    case True
    then obtain j where "j < 3" and "attempt_returns (fst (fetch j))" by blast
    then obtain t n where "make_robust_request s now fetch tf =
        (Some 200, record_success (s\<lparr> total_requests := total_requests s + 1 \<rparr>) t, n)"
      using request_success [of s now j fetch tf] closed by blast
    then show ?thesis by (simp add: breaker_consistent_def record_success_def)
  next
    case False
    then have "\<And>j. j < 3 \<Longrightarrow> \<not> attempt_returns (fst (fetch j))" by blast
    then have "make_robust_request s now fetch tf =
        (None, record_failure (s\<lparr> total_requests := total_requests s + 1 \<rparr>) tf, 3)"
      using request_failure [of s now fetch tf] closed by simp
    then show ?thesis using assms by (simp add: breaker_consistent_def record_failure_def)
  qed
qed

lemma run_requests_consistent:
  "breaker_consistent s \<Longrightarrow> breaker_consistent (fst (run_requests s reqs))"
proof (induction reqs arbitrary: s)
  case Nil
  then show ?case by simp
next
  case (Cons r reqs)
  obtain now fetch tf where r: "r = (now, fetch, tf)" by (cases r)
  have "breaker_consistent (fst (snd (make_robust_request s now fetch tf)))"
    using Cons.prems by (rule request_keeps_consistent)
  then have "breaker_consistent
      (fst (run_requests (fst (snd (make_robust_request s now fetch tf))) reqs))"
    by (rule Cons.IH)
  then show ?case using r by (simp add: case_prod_beta)
qed

text \<open>
  On such a scraper the breaker is Open exactly when at least 5 failures are counted
  and the last of them is less than 300 seconds old.
\<close>

lemma open_iff:
  "breaker_consistent s \<Longrightarrow>
   is_circuit_breaker_open s now \<longleftrightarrow>
     5 \<le> failure_count s \<and> (\<exists>t. last_failure_time s = Some t \<and> now - t < seconds 300)"
  by (cases "last_failure_time s")
     (auto simp: breaker_consistent_def is_circuit_breaker_open_def
        circuit_breaker_threshold_def circuit_breaker_timeout_def)

text \<open>
  The scenario of the specification. Three requests whose attempts all time out leave
  the breaker Closed; after two more it is Open; the request made then calls
  \<open>session.get\<close> not once; 300 seconds after the fifth failure a request is let through,
  and its 200 closes the breaker with the failure count at 0.
\<close>

lemma breaker_scenario:
  "\<not> is_circuit_breaker_open (fst (run_requests init_scraper
       [(seconds 0, \<lambda>i. (TimeoutError, seconds 1), seconds 2),
        (seconds 10, \<lambda>i. (TimeoutError, seconds 11), seconds 12),
        (seconds 20, \<lambda>i. (TimeoutError, seconds 21), seconds 22)])) (seconds 30)
   \<and> run_requests init_scraper
       [(seconds 0, \<lambda>i. (TimeoutError, seconds 1), seconds 2),
        (seconds 10, \<lambda>i. (TimeoutError, seconds 11), seconds 12),
        (seconds 20, \<lambda>i. (TimeoutError, seconds 21), seconds 22),
        (seconds 30, \<lambda>i. (TimeoutError, seconds 31), seconds 32),
        (seconds 40, \<lambda>i. (TimeoutError, seconds 41), seconds 42),
        (seconds 50, \<lambda>i. (Response 200, seconds 51), seconds 52),
        (seconds 342, \<lambda>i. (Response 200, seconds 343), seconds 344)]
     = (\<lparr> failure_count = 0, last_failure_time = None, total_requests = 6,
          successful_requests = 1, consecutive_failures = 0,
          last_successful_scrape = Some (seconds 343) \<rparr>,
        [3, 3, 3, 3, 3, 0, 1])"
  by (simp add: init_scraper_def make_robust_request_def max_retries_def
      is_circuit_breaker_open_def circuit_breaker_threshold_def circuit_breaker_timeout_def
      record_success_def record_failure_def seconds_def eval_nat_numeral)

text \<open>
  The failures counted are consecutive ones. Four failed requests, then a request that
  gets its 200 at the second attempt, then one more failed request: the count is 1,
  not 5, and the breaker is Closed, the next request calls \<open>session.get\<close>.
\<close>

lemma success_while_closed_resets:
  "run_requests init_scraper
       [(seconds 0, \<lambda>i. (TimeoutError, seconds 1), seconds 2),
        (seconds 10, \<lambda>i. (Response 503, seconds 11), seconds 12),
        (seconds 20, \<lambda>i. (ClientConnectorError, seconds 21), seconds 22),
        (seconds 30, \<lambda>i. (OtherException, seconds 31), seconds 32),
        (seconds 40, \<lambda>i. (if i = 0 then Response 429 else Response 200, seconds 41), seconds 42),
        (seconds 50, \<lambda>i. (Response 403, seconds 51), seconds 52),
        (seconds 60, \<lambda>i. (Response 200, seconds 61), seconds 62)]
     = (\<lparr> failure_count = 0, last_failure_time = None, total_requests = 7,
          successful_requests = 2, consecutive_failures = 0,
          last_successful_scrape = Some (seconds 61) \<rparr>,
        [3, 3, 3, 3, 2, 3, 1])
   \<and> fst (run_requests init_scraper
       [(seconds 0, \<lambda>i. (TimeoutError, seconds 1), seconds 2),
        (seconds 10, \<lambda>i. (Response 503, seconds 11), seconds 12),
        (seconds 20, \<lambda>i. (ClientConnectorError, seconds 21), seconds 22),
        (seconds 30, \<lambda>i. (OtherException, seconds 31), seconds 32),
        (seconds 40, \<lambda>i. (if i = 0 then Response 429 else Response 200, seconds 41), seconds 42),
        (seconds 50, \<lambda>i. (Response 403, seconds 51), seconds 52)])
     = \<lparr> failure_count = 1, last_failure_time = Some (seconds 52), total_requests = 6,
         successful_requests = 1, consecutive_failures = 1,
         last_successful_scrape = Some (seconds 41) \<rparr>"
  by (simp add: init_scraper_def make_robust_request_def max_retries_def
      is_circuit_breaker_open_def circuit_breaker_threshold_def circuit_breaker_timeout_def
      record_success_def record_failure_def seconds_def eval_nat_numeral)

text \<open>
  C2. The breaker is Closed while fewer than 5 consecutive failed requests are recorded
  (and a request then does call \<open>session.get\<close>). With 5 or more recorded it is Open
  while less than 300 seconds have passed since the last failure: the request returns
  \<open>None\<close> at once, with no \<open>session.get\<close> call and the scraper untouched. From 300
  seconds on the breaker is not Open and a request is let through as a trial. Whenever
  the breaker is not Open, Closed or on trial: if one of the three attempts of the
  request gets a 200, the failure count is back to 0, no failure time is left and the breaker
  is Closed at every later time; if all three attempts fail, the count goes up by
  exactly one, the last-failure time is the time of this failure, and the breaker is
  Open afterwards exactly when the count has reached 5 and less than 300 seconds have
  passed since this failure. (With 5 failures counted and no failure time, a state no
  request produces, the breaker is Open.)
\<close>

theorem circuit_breaker_state_machine:
  "(failure_count s0 < 5 \<longrightarrow>
      \<not> is_circuit_breaker_open s0 now0
      \<and> 0 < snd (snd (make_robust_request s0 now0 fetch0 tf0)))
   \<and> (5 \<le> failure_count s1 \<and> last_failure_time s1 = Some t1 \<and> now1 - t1 < seconds 300 \<longrightarrow>
      is_circuit_breaker_open s1 now1
      \<and> make_robust_request s1 now1 fetch1 tf1 = (None, s1, 0))
   \<and> (5 \<le> failure_count s2 \<and> last_failure_time s2 = Some t2 \<and> seconds 300 \<le> now2 - t2 \<longrightarrow>
      \<not> is_circuit_breaker_open s2 now2
      \<and> 0 < snd (snd (make_robust_request s2 now2 fetch2 tf2)))
   \<and> (\<not> is_circuit_breaker_open s3 now3 \<and> (\<exists>j<3. fst (fetch3 j) = Response 200) \<longrightarrow>
      (\<exists>s' n. make_robust_request s3 now3 fetch3 tf3 = (Some 200, s', n) \<and> 0 < n \<and> n \<le> 3
         \<and> failure_count s' = 0 \<and> last_failure_time s' = None
         \<and> consecutive_failures s' = 0
         \<and> (\<forall>now'. \<not> is_circuit_breaker_open s' now')))
   \<and> (\<not> is_circuit_breaker_open s4 now4 \<and> (\<forall>j<3. fst (fetch4 j) \<noteq> Response 200) \<longrightarrow>
      (\<exists>s'. make_robust_request s4 now4 fetch4 tf4 = (None, s', 3)
         \<and> failure_count s' = failure_count s4 + 1
         \<and> last_failure_time s' = Some tf4
         \<and> consecutive_failures s' = consecutive_failures s4 + 1
         \<and> (\<forall>now'. is_circuit_breaker_open s' now' \<longleftrightarrow>
               5 \<le> failure_count s4 + 1 \<and> now' - tf4 < seconds 300)))
   \<and> (5 \<le> failure_count s5 \<and> last_failure_time s5 = None \<longrightarrow>
      is_circuit_breaker_open s5 now5)"
proof (intro conjI impI)
  assume "failure_count s0 < 5"
  then show closed: "\<not> is_circuit_breaker_open s0 now0"
    by (simp add: is_circuit_breaker_open_def circuit_breaker_threshold_def)
  then show "0 < snd (snd (make_robust_request s0 now0 fetch0 tf0))"
    by (rule request_calls_fetch)
next
  assume a: "5 \<le> failure_count s1 \<and> last_failure_time s1 = Some t1 \<and> now1 - t1 < seconds 300"
  then show op: "is_circuit_breaker_open s1 now1"
    by (simp add: is_circuit_breaker_open_def circuit_breaker_threshold_def
        circuit_breaker_timeout_def)
  then show "make_robust_request s1 now1 fetch1 tf1 = (None, s1, 0)"
    by (rule request_short_circuit)
next
  assume a: "5 \<le> failure_count s2 \<and> last_failure_time s2 = Some t2 \<and> seconds 300 \<le> now2 - t2"
  then show trial: "\<not> is_circuit_breaker_open s2 now2"
    by (simp add: is_circuit_breaker_open_def circuit_breaker_threshold_def
        circuit_breaker_timeout_def)
  then show "0 < snd (snd (make_robust_request s2 now2 fetch2 tf2))"
    by (rule request_calls_fetch)
next
  assume a: "\<not> is_circuit_breaker_open s3 now3 \<and> (\<exists>j<3. fst (fetch3 j) = Response 200)"
  then obtain j where "j < 3" and "attempt_returns (fst (fetch3 j))"
    by (auto simp: attempt_returns_iff)
  then obtain t' n where r: "make_robust_request s3 now3 fetch3 tf3 =
      (Some 200, record_success (s3\<lparr> total_requests := total_requests s3 + 1 \<rparr>) t', n)"
    and n: "0 < n" "n \<le> 3"
    using request_success [of s3 now3 j fetch3 tf3] a by blast
  show "\<exists>s' n. make_robust_request s3 now3 fetch3 tf3 = (Some 200, s', n) \<and> 0 < n \<and> n \<le> 3
          \<and> failure_count s' = 0 \<and> last_failure_time s' = None
          \<and> consecutive_failures s' = 0
          \<and> (\<forall>now'. \<not> is_circuit_breaker_open s' now')"
    using r n
    by (simp add: record_success_def is_circuit_breaker_open_def circuit_breaker_threshold_def)
next
  assume a: "\<not> is_circuit_breaker_open s4 now4 \<and> (\<forall>j<3. fst (fetch4 j) \<noteq> Response 200)"
  then have "\<And>j. j < 3 \<Longrightarrow> \<not> attempt_returns (fst (fetch4 j))"
    by (simp add: attempt_returns_iff)
  then have r: "make_robust_request s4 now4 fetch4 tf4 =
      (None, record_failure (s4\<lparr> total_requests := total_requests s4 + 1 \<rparr>) tf4, 3)"
    using request_failure [of s4 now4 fetch4 tf4] a by simp
  show "\<exists>s'. make_robust_request s4 now4 fetch4 tf4 = (None, s', 3)
          \<and> failure_count s' = failure_count s4 + 1
          \<and> last_failure_time s' = Some tf4
          \<and> consecutive_failures s' = consecutive_failures s4 + 1
          \<and> (\<forall>now'. is_circuit_breaker_open s' now' \<longleftrightarrow>
                5 \<le> failure_count s4 + 1 \<and> now' - tf4 < seconds 300)"
    using r
    by (auto simp: record_failure_def is_circuit_breaker_open_def circuit_breaker_threshold_def
        circuit_breaker_timeout_def)
next
  assume "5 \<le> failure_count s5 \<and> last_failure_time s5 = None"
  then show "is_circuit_breaker_open s5 now5"
    by (simp add: is_circuit_breaker_open_def circuit_breaker_threshold_def)
qed

theorem circuit_breaker_state_machine_witness:
  "failure_count (init_scraper\<lparr> failure_count := 4, last_failure_time := Some 0 \<rparr>) < 5
   \<and> \<not> is_circuit_breaker_open (init_scraper\<lparr> failure_count := 4, last_failure_time := Some 0 \<rparr>) 1
   \<and> 5 \<le> failure_count (init_scraper\<lparr> failure_count := 5, last_failure_time := Some 0 \<rparr>)
   \<and> (299999999::int) - 0 < seconds 300
   \<and> make_robust_request (init_scraper\<lparr> failure_count := 5, last_failure_time := Some 0 \<rparr>)
         299999999 (\<lambda>i. (Response 200, 299999999)) 299999999
       = (None, init_scraper\<lparr> failure_count := 5, last_failure_time := Some 0 \<rparr>, 0)
   \<and> seconds 300 \<le> (300000000::int) - 0
   \<and> \<not> is_circuit_breaker_open (init_scraper\<lparr> failure_count := 5, last_failure_time := Some 0 \<rparr>)
         300000000
   \<and> fst (Response 200, 2::int) = Response 200
   \<and> make_robust_request (init_scraper\<lparr> failure_count := 4, last_failure_time := Some 0 \<rparr>)
         1 (\<lambda>i. (Response 200, 2)) 3
       = (Some 200,
          \<lparr> failure_count = 0, last_failure_time = None, total_requests = 1,
            successful_requests = 1, consecutive_failures = 0,
            last_successful_scrape = Some 2 \<rparr>, 1)
   \<and> fst (Response 503, 300000001::int) \<noteq> Response 200
   \<and> failure_count (fst (snd (make_robust_request
         (init_scraper\<lparr> failure_count := 5, last_failure_time := Some 0 \<rparr>)
         300000000 (\<lambda>i. (Response 503, 300000001)) 300000009))) = 6
   \<and> is_circuit_breaker_open (fst (snd (make_robust_request
         (init_scraper\<lparr> failure_count := 5, last_failure_time := Some 0 \<rparr>)
         300000000 (\<lambda>i. (Response 503, 300000001)) 300000009))) 600000008
   \<and> \<not> is_circuit_breaker_open (fst (snd (make_robust_request
         (init_scraper\<lparr> failure_count := 5, last_failure_time := Some 0 \<rparr>)
         300000000 (\<lambda>i. (Response 503, 300000001)) 300000009))) 600000009
   \<and> last_failure_time (init_scraper\<lparr> failure_count := 5 \<rparr>) = None
   \<and> is_circuit_breaker_open (init_scraper\<lparr> failure_count := 5 \<rparr>) 7"
  using circuit_breaker_state_machine
    [of "init_scraper\<lparr> failure_count := 4, last_failure_time := Some 0 \<rparr>"
        1 "\<lambda>i. (Response 200, 1)" 1
        "init_scraper\<lparr> failure_count := 5, last_failure_time := Some 0 \<rparr>"
        0 299999999 "\<lambda>i. (Response 200, 299999999)" 299999999
        "init_scraper\<lparr> failure_count := 5, last_failure_time := Some 0 \<rparr>"
        0 300000000 "\<lambda>i. (Response 200, 300000001)" 300000002
        "init_scraper\<lparr> failure_count := 4, last_failure_time := Some 0 \<rparr>"
        1 "\<lambda>i. (Response 200, 2)" 3
        "init_scraper\<lparr> failure_count := 5, last_failure_time := Some 0 \<rparr>"
        300000000 "\<lambda>i. (Response 503, 300000001)" 300000009
        "init_scraper\<lparr> failure_count := 5 \<rparr>" 7]
  by (auto simp: init_scraper_def seconds_def make_robust_request_def max_retries_def
      is_circuit_breaker_open_def circuit_breaker_threshold_def circuit_breaker_timeout_def
      record_success_def record_failure_def eval_nat_numeral)

section \<open>Properties of the validation score\<close>

lemma score_nonneg: "0 \<le> score missing invalid d"
  by (simp add: score_def)

lemma score_formula:
  "score missing invalid d =
     max 0 ((of_nat (3 - length missing) * (7 / 10)
             + of_nat (length (filter (present d) important_fields)) * (3 / 10)) / 7
            - of_nat (length invalid) * (2 / 10))"
proof -
  have lr: "length required_fields = 3" by (simp add: required_fields_def)
  have li: "length important_fields = 4" by (simp add: important_fields_def)
  show ?thesis unfolding score_def Let_def lr li by simp
qed

lemma score_upper: "score missing invalid d \<le> 33 / 70"
proof -
  define a :: rat where "a = of_nat (3 - length missing)"
  define b :: rat where "b = of_nat (length (filter (present d) important_fields))"
  define p :: rat where "p = of_nat (length invalid)"
  have a: "a \<le> 3" unfolding a_def by (metis diff_le_self of_nat_le_iff of_nat_numeral)
  have "length (filter (present d) important_fields) \<le> length important_fields"
    by (rule length_filter_le)
  then have "length (filter (present d) important_fields) \<le> 4"
    by (simp add: important_fields_def)
  then have b: "b \<le> 4" unfolding b_def by (metis of_nat_le_iff of_nat_numeral)
  have p: "0 \<le> p" unfolding p_def by simp
  have "(a * (7 / 10) + b * (3 / 10)) / 7 = a / 10 + b * (3 / 70)"
    by simp
  then have le: "(a * (7 / 10) + b * (3 / 10)) / 7 - p * (2 / 10) \<le> 33 / 70"
    using a b p by linarith
  have "score missing invalid d = max 0 ((a * (7 / 10) + b * (3 / 10)) / 7 - p * (2 / 10))"
    unfolding a_def b_def p_def by (rule score_formula)
  also have "\<dots> \<le> 33 / 70"
    using le by (simp only: max.bounded_iff) simp
  finally show ?thesis .
qed

lemma validate_score:
  "validate_product_data repr d = Inr v \<Longrightarrow>
   confidence_score v = score (missing_fields v) (invalid_fields v) d"
  by (auto simp: validate_product_data_def Let_def split: sum.splits)

lemma validate_missing:
  "validate_product_data repr d = Inr v \<Longrightarrow>
   missing_fields v = filter (\<lambda>field. \<not> present d field) required_fields"
  by (auto simp: validate_product_data_def Let_def split: sum.splits)

lemma script_patterns_never_returns: "script_patterns repr ms \<noteq> Inr (Some r)"
proof (induction ms)
  case Nil
  then show ?case by simp
next
  case (Cons m ms)
  show ?case
  proof (cases m)
    case NoMatch
    then show ?thesis using Cons by simp
  next
    case MatchDecodeError
    then show ?thesis using Cons by simp
  next
    case (MatchLoaded v)
    have low: "\<And>d w. validate_product_data repr d = Inr w \<Longrightarrow> \<not> confidence_score w > 5 / 10"
    proof -
      fix d w assume "validate_product_data repr d = Inr w"
      then have "confidence_score w \<le> 33 / 70"
        using score_upper by (simp add: validate_score)
      then show "\<not> confidence_score w > 5 / 10" by simp
    qed
    show ?thesis using MatchLoaded Cons low
      by (auto split: option.splits sum.splits)
  qed
qed

lemma script_loop_never_returns: "script_loop repr ts \<noteq> Inr (Some r)"
proof (induction ts)
  case Nil
  then show ?case by simp
next
  case (Cons t ts)
  then show ?case
    using script_patterns_never_returns
    by (cases t) (auto split: sum.splits option.splits)
qed

text \<open>
  C10. Whenever \<open>_validate_product_data\<close> returns, its confidence score lies between 0
  and 33/70. It is 33/70 when no required field is missing, no field is invalid and
  all four important fields are present. As 33/70 is below 0.5, the script-JSON
  strategy's test \<open>confidence_score > 0.5\<close> never holds, and
  \<open>_try_script_json_parsing\<close> returns a result without success on every page.
\<close>

theorem confidence_at_most_33_70:
  "(validate_product_data repr d = Inr v \<longrightarrow>
      0 \<le> confidence_score v \<and> confidence_score v \<le> 33 / 70
      \<and> (missing_fields v = [] \<and> invalid_fields v = []
           \<and> list_all (present d) important_fields \<longrightarrow> confidence_score v = 33 / 70))
   \<and> (33 / 70 :: rat) < 5 / 10
   \<and> \<not> success (try_script_json_parsing repr pg)"
proof (intro conjI impI)
  assume v: "validate_product_data repr d = Inr v"
  show "0 \<le> confidence_score v"
    using v score_nonneg by (simp add: validate_score)
  show "confidence_score v \<le> 33 / 70"
    using v score_upper by (simp add: validate_score)
next
  assume v: "validate_product_data repr d = Inr v"
    and full: "missing_fields v = [] \<and> invalid_fields v = []
               \<and> list_all (present d) important_fields"
  have "filter (present d) important_fields = important_fields"
    using full by (simp add: list_all_iff)
  then show "confidence_score v = 33 / 70"
    using v full by (simp add: validate_score score_formula important_fields_def)
next
  show "(33 / 70 :: rat) < 5 / 10" by simp
next
  show "\<not> success (try_script_json_parsing repr pg)"
    using script_loop_never_returns [of repr "scripts pg"]
    by (auto simp: try_script_json_parsing_def failure_result_def
        split: sum.splits option.splits)
qed

lemmas validate_eval =
  validate_product_data_def score_def present_def has_key_def required_fields_def
  important_fields_def price_invalid_def name_invalid_def url_invalid_def name_or_title_def
  py_str_def extract_price_def strip_def is_space_def is_digit_def py_float_def
  first_number_def digits_to_nat_def startswith_def rindex_def after_last_def
  replace_char_def remove_char_def

theorem confidence_at_most_33_70_witness:
  "validate_product_data (\<lambda>v. [])
     [(''name'', PStr ''Dunk Low''), (''price'', PStr ''$100''), (''url'', PStr ''https://n.co/p''),
      (''brand'', PStr ''Nike''), (''model'', PStr ''Low''), (''sku'', PStr ''DD1''),
      (''image'', PStr ''i.png'')]
     = Inr \<lparr> is_valid = True, missing_fields = [], invalid_fields = [],
             confidence_score = 33 / 70 \<rparr>
   \<and> list_all (present
     [(''name'', PStr ''Dunk Low''), (''price'', PStr ''$100''), (''url'', PStr ''https://n.co/p''),
      (''brand'', PStr ''Nike''), (''model'', PStr ''Low''), (''sku'', PStr ''DD1''),
      (''image'', PStr ''i.png'')]) important_fields
   \<and> \<not> success (try_script_json_parsing (\<lambda>v. [])
       \<lparr> json_ld_scripts = [],
         scripts = [Script [MatchLoaded (PDict [(''product'', PDict
           [(''name'', PStr ''Dunk Low''), (''price'', PStr ''$100''),
            (''url'', PStr ''https://n.co/p''), (''brand'', PStr ''Nike''),
            (''model'', PStr ''Low''), (''sku'', PStr ''DD1''),
            (''image'', PStr ''i.png'')])])]],
         sel_title = None, sel_price = None, sel_image = None, sel_sku = None,
         fallback_price = None, h1_text = None, fallback_image = None \<rparr>)"
  using confidence_at_most_33_70
    [of "\<lambda>v. []"
        "[(''name'', PStr ''Dunk Low''), (''price'', PStr ''$100''), (''url'', PStr ''https://n.co/p''),
          (''brand'', PStr ''Nike''), (''model'', PStr ''Low''), (''sku'', PStr ''DD1''),
          (''image'', PStr ''i.png'')]"
        "\<lparr> is_valid = True, missing_fields = [], invalid_fields = [],
           confidence_score = 33 / 70 \<rparr>"
        "\<lparr> json_ld_scripts = [],
         scripts = [Script [MatchLoaded (PDict [(''product'', PDict
           [(''name'', PStr ''Dunk Low''), (''price'', PStr ''$100''),
            (''url'', PStr ''https://n.co/p''), (''brand'', PStr ''Nike''),
            (''model'', PStr ''Low''), (''sku'', PStr ''DD1''),
            (''image'', PStr ''i.png'')])])]],
         sel_title = None, sel_price = None, sel_image = None, sel_sku = None,
         fallback_price = None, h1_text = None, fallback_image = None \<rparr>"]
  by (simp add: validate_eval)

lemma score_two_required_two_important:
  assumes "missing \<noteq> []"
    and "length (filter (present d) important_fields) \<le> 2"
  shows "score missing invalid d \<le> 2 / 7"
proof -
  define a :: rat where "a = of_nat (3 - length missing)"
  define b :: rat where "b = of_nat (length (filter (present d) important_fields))"
  define p :: rat where "p = of_nat (length invalid)"
  have "3 - length missing \<le> 2" using assms(1) by (cases missing) auto
  then have a: "a \<le> 2" unfolding a_def by (metis of_nat_le_iff of_nat_numeral)
  have b: "b \<le> 2" unfolding b_def using assms(2) by (metis of_nat_le_iff of_nat_numeral)
  have p: "0 \<le> p" unfolding p_def by simp
  have "(a * (7 / 10) + b * (3 / 10)) / 7 = a / 10 + b * (3 / 70)"
    by simp
  then have le: "(a * (7 / 10) + b * (3 / 10)) / 7 - p * (2 / 10) \<le> 2 / 7"
    using a b p by linarith
  have "score missing invalid d = max 0 ((a * (7 / 10) + b * (3 / 10)) / 7 - p * (2 / 10))"
    unfolding a_def b_def p_def by (rule score_formula)
  also have "\<dots> \<le> 2 / 7"
    using le by (simp only: max.bounded_iff) simp
  finally show ?thesis .
qed

text \<open>
  The structured-HTML strategy stores the product's name under \<open>title\<close>, so the required
  field \<open>name\<close> is always missing, and it extracts neither brand nor model: its score is
  at most 2/7, below the 0.3 it must exceed. It never succeeds either.
\<close>

lemma structured_html_never_succeeds:
  "\<not> success (try_structured_html_parsing repr pg url)"
proof -
  define d where "d = [(''url'', PStr url)] @ field_entry ''title'' (sel_title pg)
              @ field_entry ''price'' (sel_price pg) @ field_entry ''image'' (sel_image pg)
              @ field_entry ''sku'' (sel_sku pg)"
  have nokey: "map_of d ''name'' = None" "map_of d ''brand'' = None" "map_of d ''model'' = None"
    unfolding d_def field_entry_def by (auto split: option.splits)
  have miss: "filter (\<lambda>field. \<not> present d field) required_fields \<noteq> []"
    using nokey by (simp add: required_fields_def present_def)
  have "filter (present d) important_fields = filter (present d) [''sku'', ''image'']"
    using nokey by (simp add: important_fields_def present_def)
  then have imp: "length (filter (present d) important_fields) \<le> 2"
    by (metis length_filter_le length_Cons list.size(3) numeral_2_eq_2)
  have low: "\<And>v. validate_product_data repr d = Inr v \<Longrightarrow> \<not> confidence_score v > 3 / 10"
  proof -
    fix v assume v: "validate_product_data repr d = Inr v"
    have "confidence_score v \<le> 2 / 7"
      using score_two_required_two_important [OF _ imp, of "missing_fields v" "invalid_fields v"]
        miss v by (simp add: validate_score validate_missing)
    then show "\<not> confidence_score v > 3 / 10" by simp
  qed
  show ?thesis
    using low unfolding try_structured_html_parsing_def Let_def d_def [symmetric]
    by (auto simp: failure_result_def split: sum.splits)
qed

text \<open>
  C4. With name, price and url present and valid and no important field, the
  specification's formula gives 3 * (0.7 / 3) = 0.7, and
  \<open>_validate_product_data\<close> returns 0.3: it divides the weighted sum by the total number
  of fields, 7, so a required field counts 0.1 and an important field 0.3/7.
\<close>

theorem three_required_fields_score_three_tenths:
  "validate_product_data repr
     [(''name'', PStr ''Dunk Low''), (''price'', PStr ''$100''), (''url'', PStr ''https://n.co/p'')]
     = Inr \<lparr> is_valid = True, missing_fields = [], invalid_fields = [],
             confidence_score = 3 / 10 \<rparr>
   \<and> specified_confidence
     [(''name'', PStr ''Dunk Low''), (''price'', PStr ''$100''), (''url'', PStr ''https://n.co/p'')]
     [] = 7 / 10"
  by (simp add: validate_eval specified_confidence_def)

section \<open>Parse exhaustion and transport failure\<close>

lemma fallback_data_validates:
  "\<exists>v. validate_product_data repr
     ([(''url'', PStr url)]
        @ (case fallback_price pg of None \<Rightarrow> [] | Some p \<Rightarrow> [(''price'', PFloat p)])
        @ (case h1_text pg of
             None \<Rightarrow> []
           | Some title \<Rightarrow>
               if title \<noteq> [] \<and> length title > 5 then [(''title'', PStr title)] else [])
        @ field_entry ''image'' (fallback_image pg)) = Inr v"
  by (auto simp: validate_product_data_def Let_def name_invalid_def url_invalid_def
      name_or_title_def has_key_def field_entry_def split: option.splits)

lemma fallback_no_error: "error (try_fallback_html_parsing repr pg url) = None"
  using fallback_data_validates [of repr url pg]
  by (auto simp: try_fallback_html_parsing_def Let_def)

lemma fallback_method:
  "scraping_method (try_fallback_html_parsing repr pg url) = HTML_FALLBACK"
  by (auto simp: try_fallback_html_parsing_def Let_def failure_result_def split: sum.splits)

lemma exhausted_is_fallback:
  "\<not> success (try_multiple_parsing_methods repr pg url) \<Longrightarrow>
   try_multiple_parsing_methods repr pg url = try_fallback_html_parsing repr pg url"
  by (auto simp: try_multiple_parsing_methods_def Let_def split: if_splits)

lemma web_search_keeps_request_state:
  "snd (try_web_search repr convert s now fetch tf pg url) = snd (make_robust_request s now fetch tf)"
  by (auto simp: try_web_search_def Let_def split: prod.splits option.splits)

text \<open>
  C5, as stated, fails: the counter is not left unchanged. A scraper has counted three
  failed requests. Its next request gets a 200 and the page has nothing that any parsing
  strategy accepts: the extraction returns the empty list, and the counter is 0, not
  3, because the request recorded its success before the page was parsed.
\<close>

theorem parse_exhaustion_after_failures_resets_counter:
  "fst (run_requests init_scraper
       [(seconds 0, \<lambda>i. (TimeoutError, seconds 1), seconds 2),
        (seconds 10, \<lambda>i. (TimeoutError, seconds 11), seconds 12),
        (seconds 20, \<lambda>i. (TimeoutError, seconds 21), seconds 22)])
     = \<lparr> failure_count = 3, last_failure_time = Some (seconds 22), total_requests = 3,
         successful_requests = 0, consecutive_failures = 3, last_successful_scrape = None \<rparr>
   \<and> \<not> success (try_multiple_parsing_methods (\<lambda>v. [])
       \<lparr> json_ld_scripts = [], scripts = [],
         sel_title = None, sel_price = None, sel_image = None, sel_sku = None,
         fallback_price = None, h1_text = None, fallback_image = None \<rparr> ''https://n.co/w'')
   \<and> try_web_search (\<lambda>v. []) (\<lambda>d m. Some [1::nat])
       \<lparr> failure_count = 3, last_failure_time = Some (seconds 22), total_requests = 3,
         successful_requests = 0, consecutive_failures = 3, last_successful_scrape = None \<rparr>
       (seconds 30) (\<lambda>i. (Response 200, seconds 31)) (seconds 32)
       \<lparr> json_ld_scripts = [], scripts = [],
         sel_title = None, sel_price = None, sel_image = None, sel_sku = None,
         fallback_price = None, h1_text = None, fallback_image = None \<rparr> ''https://n.co/w''
     = ([], \<lparr> failure_count = 0, last_failure_time = None, total_requests = 4,
               successful_requests = 1, consecutive_failures = 0,
               last_successful_scrape = Some (seconds 31) \<rparr>, 1)
   \<and> failure_count \<lparr> failure_count = 3, last_failure_time = Some (seconds 22), total_requests = 3,
         successful_requests = 0, consecutive_failures = 3, last_successful_scrape = None \<rparr> = 3"
  by (simp add: validate_eval init_scraper_def make_robust_request_def max_retries_def
      is_circuit_breaker_open_def circuit_breaker_threshold_def circuit_breaker_timeout_def
      record_success_def record_failure_def seconds_def
      eval_nat_numeral try_web_search_def try_multiple_parsing_methods_def
      try_json_ld_parsing_def try_script_json_parsing_def try_structured_html_parsing_def
      try_fallback_html_parsing_def failure_result_def field_entry_def found_factor_def)

text \<open>
  C5, amended. When a request is let through and gets its 200, and no parsing
  strategy succeeds on the page (each fails or stays below its confidence threshold),
  the result of the strategy chain is the fallback's, with no error text, and the
  extraction returns the empty list of products, a value and not an exception. The
  failure counter is not incremented: it is 0 afterwards, whatever it was before,
  because the successful request has reset it; parsing itself never touches the
  scraper, whose fields and whose number of \<open>session.get\<close> calls are those the request
  left, for every outcome. A request that is let through and whose three attempts all
  fail (timeout, connection error or a status other than 200) adds exactly one to
  the failure counter, and the extraction returns the empty list as well. While the
  breaker is Open the extraction returns the empty list with the scraper untouched.
\<close>

theorem parse_exhaustion_never_increments:
  "(\<not> is_circuit_breaker_open s now \<and> (\<exists>j<3. fst (fetch j) = Response 200)
      \<and> \<not> success (try_multiple_parsing_methods repr pg url) \<longrightarrow>
        error (try_multiple_parsing_methods repr pg url) = None
        \<and> scraping_method (try_multiple_parsing_methods repr pg url) = HTML_FALLBACK
        \<and> (\<exists>s' n. try_web_search repr convert s now fetch tf pg url = ([], s', n)
              \<and> 0 < n \<and> n \<le> 3
              \<and> failure_count s' = 0 \<and> last_failure_time s' = None
              \<and> total_requests s' = total_requests s + 1
              \<and> successful_requests s' = successful_requests s + 1))
   \<and> snd (try_web_search repr convert s1 now1 fetch1 tf1 pg1 url1)
       = snd (make_robust_request s1 now1 fetch1 tf1)
   \<and> (\<not> is_circuit_breaker_open s2 now2 \<and> (\<forall>j<3. fst (fetch2 j) \<noteq> Response 200) \<longrightarrow>
        (\<exists>s3. try_web_search repr convert s2 now2 fetch2 tf2 pg2 url2 = ([], s3, 3)
           \<and> failure_count s3 = failure_count s2 + 1
           \<and> last_failure_time s3 = Some tf2))
   \<and> (is_circuit_breaker_open s4 now4 \<longrightarrow>
        try_web_search repr convert s4 now4 fetch4 tf4 pg4 url4 = ([], s4, 0))"
proof (intro conjI impI)
  assume a: "\<not> is_circuit_breaker_open s now \<and> (\<exists>j<3. fst (fetch j) = Response 200)
      \<and> \<not> success (try_multiple_parsing_methods repr pg url)"
  then have fb: "try_multiple_parsing_methods repr pg url = try_fallback_html_parsing repr pg url"
    by (simp add: exhausted_is_fallback)
  show "error (try_multiple_parsing_methods repr pg url) = None"
    unfolding fb by (rule fallback_no_error)
  show "scraping_method (try_multiple_parsing_methods repr pg url) = HTML_FALLBACK"
    unfolding fb by (rule fallback_method)
  from a obtain j where "j < 3" and "attempt_returns (fst (fetch j))"
    by (auto simp: attempt_returns_iff)
  then obtain t n where r: "make_robust_request s now fetch tf =
      (Some 200, record_success (s\<lparr> total_requests := total_requests s + 1 \<rparr>) t, n)"
    and n: "0 < n" "n \<le> 3"
    using request_success [of s now j fetch tf] a by blast
  have "try_web_search repr convert s now fetch tf pg url =
          ([], record_success (s\<lparr> total_requests := total_requests s + 1 \<rparr>) t, n)"
    using r a by (simp add: try_web_search_def Let_def split: option.splits)
  then show "\<exists>s' n. try_web_search repr convert s now fetch tf pg url = ([], s', n)
              \<and> 0 < n \<and> n \<le> 3
              \<and> failure_count s' = 0 \<and> last_failure_time s' = None
              \<and> total_requests s' = total_requests s + 1
              \<and> successful_requests s' = successful_requests s + 1"
    using n by (simp add: record_success_def)
next
  show "snd (try_web_search repr convert s1 now1 fetch1 tf1 pg1 url1)
       = snd (make_robust_request s1 now1 fetch1 tf1)"
    by (rule web_search_keeps_request_state)
next
  assume b: "\<not> is_circuit_breaker_open s2 now2 \<and> (\<forall>j<3. fst (fetch2 j) \<noteq> Response 200)"
  then have "\<And>j. j < 3 \<Longrightarrow> \<not> attempt_returns (fst (fetch2 j))"
    by (simp add: attempt_returns_iff)
  then have r: "make_robust_request s2 now2 fetch2 tf2 =
      (None, record_failure (s2\<lparr> total_requests := total_requests s2 + 1 \<rparr>) tf2, 3)"
    using request_failure [of s2 now2 fetch2 tf2] b by simp
  show "\<exists>s3. try_web_search repr convert s2 now2 fetch2 tf2 pg2 url2 = ([], s3, 3)
           \<and> failure_count s3 = failure_count s2 + 1
           \<and> last_failure_time s3 = Some tf2"
    using r by (simp add: try_web_search_def record_failure_def)
next
  assume "is_circuit_breaker_open s4 now4"
  then show "try_web_search repr convert s4 now4 fetch4 tf4 pg4 url4 = ([], s4, 0)"
    by (simp add: try_web_search_def request_short_circuit)
qed

theorem parse_exhaustion_never_increments_witness:
  "\<not> is_circuit_breaker_open (init_scraper\<lparr> failure_count := 4, last_failure_time := Some 0 \<rparr>) 5
   \<and> fst (Response 200, 6::int) = Response 200
   \<and> \<not> success (try_multiple_parsing_methods (\<lambda>v. [])
       \<lparr> json_ld_scripts = [], scripts = [],
         sel_title = None, sel_price = None, sel_image = None, sel_sku = None,
         fallback_price = None, h1_text = None, fallback_image = None \<rparr> ''https://n.co/w'')
   \<and> error (try_multiple_parsing_methods (\<lambda>v. [])
       \<lparr> json_ld_scripts = [], scripts = [],
         sel_title = None, sel_price = None, sel_image = None, sel_sku = None,
         fallback_price = None, h1_text = None, fallback_image = None \<rparr> ''https://n.co/w'') = None
   \<and> try_web_search (\<lambda>v. []) (\<lambda>d m. Some [1::nat])
       (init_scraper\<lparr> failure_count := 4, last_failure_time := Some 0 \<rparr>)
       5 (\<lambda>i. (Response 200, 6)) 7
       \<lparr> json_ld_scripts = [], scripts = [],
         sel_title = None, sel_price = None, sel_image = None, sel_sku = None,
         fallback_price = None, h1_text = None, fallback_image = None \<rparr> ''https://n.co/w''
     = ([], \<lparr> failure_count = 0, last_failure_time = None, total_requests = 1,
               successful_requests = 1, consecutive_failures = 0,
               last_successful_scrape = Some 6 \<rparr>, 1)
   \<and> \<not> is_circuit_breaker_open (init_scraper\<lparr> failure_count := 2 \<rparr>) 0
   \<and> fst (TimeoutError, 1::int) \<noteq> Response 200
   \<and> fst (try_web_search (\<lambda>v. []) (\<lambda>d m. Some [1::nat]) (init_scraper\<lparr> failure_count := 2 \<rparr>)
       0 (\<lambda>i. (TimeoutError, 1)) 2
       \<lparr> json_ld_scripts = [], scripts = [],
         sel_title = None, sel_price = None, sel_image = None, sel_sku = None,
         fallback_price = None, h1_text = None, fallback_image = None \<rparr> ''https://n.co/w'') = []
   \<and> failure_count (fst (snd (try_web_search (\<lambda>v. []) (\<lambda>d m. Some [1::nat])
       (init_scraper\<lparr> failure_count := 2 \<rparr>) 0 (\<lambda>i. (TimeoutError, 1)) 2
       \<lparr> json_ld_scripts = [], scripts = [],
         sel_title = None, sel_price = None, sel_image = None, sel_sku = None,
         fallback_price = None, h1_text = None, fallback_image = None \<rparr> ''https://n.co/w''))) = 3
   \<and> is_circuit_breaker_open (init_scraper\<lparr> failure_count := 5, last_failure_time := Some 0 \<rparr>) 5
   \<and> try_web_search (\<lambda>v. []) (\<lambda>d m. Some [1::nat])
       (init_scraper\<lparr> failure_count := 5, last_failure_time := Some 0 \<rparr>)
       5 (\<lambda>i. (Response 200, 6)) 7
       \<lparr> json_ld_scripts = [], scripts = [],
         sel_title = None, sel_price = None, sel_image = None, sel_sku = None,
         fallback_price = None, h1_text = None, fallback_image = None \<rparr> ''https://n.co/w''
     = ([], init_scraper\<lparr> failure_count := 5, last_failure_time := Some 0 \<rparr>, 0)"
  using parse_exhaustion_never_increments
    [of "init_scraper\<lparr> failure_count := 4, last_failure_time := Some 0 \<rparr>"
        5 "\<lambda>i. (Response 200, 6)" "\<lambda>v. []"
        "\<lparr> json_ld_scripts = [], scripts = [],
         sel_title = None, sel_price = None, sel_image = None, sel_sku = None,
         fallback_price = None, h1_text = None, fallback_image = None \<rparr>" "''https://n.co/w''"
        "\<lambda>d m. Some [1::nat]" 7
        "init_scraper\<lparr> failure_count := 4, last_failure_time := Some 0 \<rparr>"
        5 "\<lambda>i. (Response 200, 6)" 7
        "\<lparr> json_ld_scripts = [], scripts = [],
         sel_title = None, sel_price = None, sel_image = None, sel_sku = None,
         fallback_price = None, h1_text = None, fallback_image = None \<rparr>" "''https://n.co/w''"
        "init_scraper\<lparr> failure_count := 2 \<rparr>" 0 "\<lambda>i. (TimeoutError, 1)" 2
        "\<lparr> json_ld_scripts = [], scripts = [],
         sel_title = None, sel_price = None, sel_image = None, sel_sku = None,
         fallback_price = None, h1_text = None, fallback_image = None \<rparr>" "''https://n.co/w''"
        "init_scraper\<lparr> failure_count := 5, last_failure_time := Some 0 \<rparr>"
        5 "\<lambda>i. (Response 200, 6)" 7
        "\<lparr> json_ld_scripts = [], scripts = [],
         sel_title = None, sel_price = None, sel_image = None, sel_sku = None,
         fallback_price = None, h1_text = None, fallback_image = None \<rparr>" "''https://n.co/w''"]
  by (auto simp: validate_eval init_scraper_def make_robust_request_def max_retries_def
      is_circuit_breaker_open_def circuit_breaker_threshold_def circuit_breaker_timeout_def
      record_success_def record_failure_def seconds_def
      eval_nat_numeral try_web_search_def try_multiple_parsing_methods_def
      try_json_ld_parsing_def try_script_json_parsing_def try_structured_html_parsing_def
      try_fallback_html_parsing_def failure_result_def field_entry_def found_factor_def)

section \<open>Properties of change detection\<close>

lemma update_first_set:
  "d \<in> set (update_first P y xs) \<Longrightarrow> d = y \<or> d \<in> set xs"
  by (induction xs) (auto split: if_splits)

lemma update_first_skus:
  "list_ex P xs \<Longrightarrow> \<forall>x \<in> set xs. P x \<longrightarrow> sku x = sku y \<Longrightarrow>
   map sku (update_first P y xs) = map sku xs"
  by (induction xs) (auto simp: list_ex_iff)

lemma upsert_keeps_skus_distinct:
  assumes "distinct (map sku db)" and "upsert_product db product now = Inr (db', p)"
  shows "distinct (map sku db')"
proof (cases "list_ex (\<lambda>d. sku d = sku product \<and> retailer d = retailer product) db")
  case True
  then have "db' = update_first (\<lambda>d. sku d = sku product \<and> retailer d = retailer product)
                     (product\<lparr> last_checked := now \<rparr>) db"
    using assms(2) by (auto simp: upsert_product_def Let_def)
  moreover have "map sku (update_first (\<lambda>d. sku d = sku product \<and> retailer d = retailer product)
                     (product\<lparr> last_checked := now \<rparr>) db) = map sku db"
    using True by (intro update_first_skus) auto
  ultimately show ?thesis using assms(1) by simp
next
  case False
  then have "db' = db @ [product\<lparr> last_checked := now \<rparr>]"
    and "\<not> list_ex (\<lambda>d. sku d = sku product) db"
    using assms(2) by (auto simp: upsert_product_def Let_def split: if_splits)
  then show ?thesis using assms(1) by (auto simp: list_ex_iff)
qed

lemma upsert_stores_product:
  assumes "upsert_product db product now = Inr (db', p)"
  shows "p = product\<lparr> last_checked := now \<rparr> \<and> p \<in> set db'"
proof (cases "list_ex (\<lambda>d. sku d = sku product \<and> retailer d = retailer product) db")
  case True
  have in_upd: "\<And>P y xs. list_ex P xs \<Longrightarrow> y \<in> set (update_first P y (xs :: sneaker_product list))"
  proof -
    fix P y and xs :: "sneaker_product list"
    show "list_ex P xs \<Longrightarrow> y \<in> set (update_first P y xs)"
      by (induction xs) (auto simp: list_ex_iff)
  qed
  show ?thesis using True assms in_upd
    by (auto simp: upsert_product_def Let_def)
next
  case False
  then show ?thesis using assms
    by (auto simp: upsert_product_def Let_def split: if_splits)
qed

text \<open>
  On a collection that respects its unique index, \<open>_is_restock\<close> is false for a product
  at every time after the product has been stored: the only document with its \<open>sku\<close> is
  the product itself, which is never both in stock (as the new snapshot must be) and out
  of stock (as the previous one must be).
\<close>

lemma no_restock_after_upsert:
  assumes "distinct (map sku db)" and "upsert_product db product t = Inr (db', p)"
  shows "\<not> is_restock db' p now"
proof
  assume r: "is_restock db' p now"
  then have stock: "is_in_stock p" by (auto simp: is_restock_def split: if_splits)
  from r obtain prev where
    f: "find (\<lambda>d. sku d = sku p \<and> retailer d = retailer p
                   \<and> last_checked d < now - minutes 30) db' = Some prev"
    and out: "\<not> is_in_stock prev"
    by (auto simp: is_restock_def split: if_splits option.splits)
  from f have prev: "prev \<in> set db'" and key: "sku prev = sku p"
    by (auto simp: find_Some_iff)
  have dist: "distinct (map sku db')"
    using assms by (rule upsert_keeps_skus_distinct)
  have "p \<in> set db'" using upsert_stores_product [OF assms(2)] by blast
  then have "prev = p"
    using prev key dist by (meson distinct_map inj_onD)
  then show False using stock out by simp
qed

text \<open>
  C1. The store holds \<open>DD1\<close> at Nike, out of stock, checked at time 0. Forty minutes later
  the scraper finds it in stock. Asked before the new snapshot is stored, \<open>_is_restock\<close>
  answers yes. The monitoring cycle stores first: \<open>upsert_product\<close> overwrites the only
  document of the key, no previous snapshot is left, and \<open>_is_restock\<close> answers no one
  second later and also a day later: no restock alert in the cycle.
\<close>

theorem restock_lost_once_stored:
  "is_restock
     [\<lparr> name = ''Dunk Low'', sku = ''DD1'', retailer = NIKE, price = Some 100,
        is_in_stock = False, last_checked = 0 \<rparr>]
     \<lparr> name = ''Dunk Low'', sku = ''DD1'', retailer = NIKE, price = Some 100,
        is_in_stock = True, last_checked = minutes 40 \<rparr> (minutes 40) = True
   \<and> upsert_product
     [\<lparr> name = ''Dunk Low'', sku = ''DD1'', retailer = NIKE, price = Some 100,
        is_in_stock = False, last_checked = 0 \<rparr>]
     \<lparr> name = ''Dunk Low'', sku = ''DD1'', retailer = NIKE, price = Some 100,
        is_in_stock = True, last_checked = minutes 40 \<rparr> (minutes 40)
     = Inr ([\<lparr> name = ''Dunk Low'', sku = ''DD1'', retailer = NIKE, price = Some 100,
               is_in_stock = True, last_checked = minutes 40 \<rparr>],
            \<lparr> name = ''Dunk Low'', sku = ''DD1'', retailer = NIKE, price = Some 100,
               is_in_stock = True, last_checked = minutes 40 \<rparr>)
   \<and> is_restock
     [\<lparr> name = ''Dunk Low'', sku = ''DD1'', retailer = NIKE, price = Some 100,
        is_in_stock = True, last_checked = minutes 40 \<rparr>]
     \<lparr> name = ''Dunk Low'', sku = ''DD1'', retailer = NIKE, price = Some 100,
        is_in_stock = True, last_checked = minutes 40 \<rparr> (minutes 40 + seconds 1) = False
   \<and> is_restock
     [\<lparr> name = ''Dunk Low'', sku = ''DD1'', retailer = NIKE, price = Some 100,
        is_in_stock = True, last_checked = minutes 40 \<rparr>]
     \<lparr> name = ''Dunk Low'', sku = ''DD1'', retailer = NIKE, price = Some 100,
        is_in_stock = True, last_checked = minutes 40 \<rparr> (hours 24) = False
   \<and> monitor_cycle
     [\<lparr> name = ''Dunk Low'', sku = ''DD1'', retailer = NIKE, price = Some 100,
        is_in_stock = False, last_checked = 0 \<rparr>]
     [(\<lparr> name = ''Dunk Low'', sku = ''DD1'', retailer = NIKE, price = Some 100,
         is_in_stock = True, last_checked = minutes 40 \<rparr>, minutes 40)]
     (minutes 40 + seconds 1) = ([], [])"
  by (simp add: is_restock_def is_price_drop_def upsert_product_def monitor_cycle_def
      Let_def minutes_def seconds_def hours_def)

lemma doubles:
  "fl (95 / 100) = 4278419646001971 / 4503599627370496"
  "fl (1328 / 10) = 2336242306698445 / 17592186044416"
  "fl (12616 / 100) = 4438860382727045 / 35184372088832"
  "fl (512 / 10) = 3602879701896397 / 70368744177664"
  "fl (6364 / 100) = 4478266879466537 / 70368744177664"
  "fl (7958 / 100) = 5599944661658501 / 70368744177664"
  "fl (7954 / 100) = 5597129911891395 / 70368744177664"
  "fl (7953 / 100) = 2798213112224809 / 35184372088832"
  by code_simp+

text \<open>
  C3. The store holds \<open>DD1\<close> at Nike at a price of 100, checked two hours ago; the new
  snapshot has the price 95, a drop of exactly 5%, so \<open>95 <= 100 * 0.95\<close>.
  \<open>_is_price_drop\<close> tests \<open>product.price < previous_price * 0.95\<close> and answers no. A drop
  from 200 to 189 fires and a drop of 4% does not.
\<close>

theorem exact_five_percent_drop_does_not_fire:
  "is_price_drop
     [\<lparr> name = ''Dunk Low'', sku = ''DD1'', retailer = NIKE, price = Some 100,
        is_in_stock = True, last_checked = 0 \<rparr>]
     \<lparr> name = ''Dunk Low'', sku = ''DD1'', retailer = NIKE, price = Some 95,
        is_in_stock = True, last_checked = hours 2 \<rparr> (hours 2) = False
   \<and> (95 :: rat) \<le> 100 * (95 / 100)
   \<and> is_price_drop
     [\<lparr> name = ''Dunk Low'', sku = ''DD1'', retailer = NIKE, price = Some 200,
        is_in_stock = True, last_checked = 0 \<rparr>]
     \<lparr> name = ''Dunk Low'', sku = ''DD1'', retailer = NIKE, price = Some 189,
        is_in_stock = True, last_checked = hours 2 \<rparr> (hours 2) = True
   \<and> is_price_drop
     [\<lparr> name = ''Dunk Low'', sku = ''DD1'', retailer = NIKE, price = Some 100,
        is_in_stock = True, last_checked = 0 \<rparr>]
     \<lparr> name = ''Dunk Low'', sku = ''DD1'', retailer = NIKE, price = Some 96,
        is_in_stock = True, last_checked = hours 2 \<rparr> (hours 2) = False"
  by code_simp

text \<open>
  The rounding is visible at the threshold. Between the doubles nearest to 132.80 and
  to 126.16 the test answers yes, although 126.16 is exactly 95% of 132.80.
\<close>

lemma price_drop_between_doubles:
  "is_price_drop
     [\<lparr> name = ''Dunk Low'', sku = ''DD1'', retailer = NIKE, price = Some (fl (1328 / 10)),
        is_in_stock = True, last_checked = 0 \<rparr>]
     \<lparr> name = ''Dunk Low'', sku = ''DD1'', retailer = NIKE, price = Some (fl (12616 / 100)),
        is_in_stock = True, last_checked = hours 2 \<rparr> (hours 2) = True
   \<and> (12616 / 100 :: rat) = 1328 / 10 * (95 / 100)"
  by (simp only: doubles) code_simp

subsection \<open>The samples of \<open>get_resell_data\<close>\<close>

lemma newest_first_descending:
  "sorted_wrt (\<lambda>a b. f b \<le> f a) (rev (sort_key f xs))"
proof -
  have "sorted (map f (sort_key f xs))" by (rule sorted_sort_key)
  then have "sorted_wrt (\<lambda>a b. f a \<le> f b) (sort_key f xs)" by (simp add: sorted_map)
  then show ?thesis by (simp add: sorted_wrt_rev)
qed

lemma newest_first_split:
  "\<exists>older. mset (take n (rev (sort_key f xs))) + mset older = mset xs
     \<and> (\<forall>r \<in> set older. \<forall>s \<in> set (take n (rev (sort_key f xs))). f r \<le> f s)"
proof (intro exI conjI)
  have "mset (take n (rev (sort_key f xs))) + mset (drop n (rev (sort_key f xs)))
        = mset (take n (rev (sort_key f xs)) @ drop n (rev (sort_key f xs)))"
    by (simp only: mset_append)
  also have "\<dots> = mset xs" by simp
  finally show "mset (take n (rev (sort_key f xs))) + mset (drop n (rev (sort_key f xs))) = mset xs" .
  have "sorted_wrt (\<lambda>a b. f b \<le> f a)
          (take n (rev (sort_key f xs)) @ drop n (rev (sort_key f xs)))"
    using newest_first_descending [of f xs] by simp
  then show "\<forall>r \<in> set (drop n (rev (sort_key f xs))).
               \<forall>s \<in> set (take n (rev (sort_key f xs))). f r \<le> f s"
    unfolding sorted_wrt_append by blast
qed

lemma newest_first_sorted:
  "sorted (rev (map f (take n (rev (sort_key f xs)))))"
proof -
  have "sorted_wrt (\<lambda>a b. f b \<le> f a) (take n (rev (sort_key f xs)))"
    using newest_first_descending [of f xs] by (rule sorted_wrt_take)
  then have "sorted_wrt (\<lambda>a b. f a \<le> f b) (rev (take n (rev (sort_key f xs))))"
    by (simp only: sorted_wrt_rev)
  then show ?thesis by (simp only: sorted_map rev_map)
qed

text \<open>
  The samples are the matching documents, newest first, cut after \<open>limit\<close>: together with
  the documents left out (\<open>older\<close>) they are exactly the documents of the collection whose
  name matches, and no document left out is newer than a sample.
\<close>

lemma get_resell_data_newest:
  "(\<exists>older. mset (get_resell_data matches coll nm limit) + mset older
              = mset (filter (\<lambda>r. matches nm (sneaker_name r)) coll)
        \<and> (\<forall>r \<in> set older. \<forall>s \<in> set (get_resell_data matches coll nm limit).
              created_at r \<le> created_at s))
   \<and> length (get_resell_data matches coll nm limit)
       = min limit (length (filter (\<lambda>r. matches nm (sneaker_name r)) coll))
   \<and> sorted (rev (map created_at (get_resell_data matches coll nm limit)))"
  unfolding get_resell_data_def
  using newest_first_split [of limit created_at "filter (\<lambda>r. matches nm (sneaker_name r)) coll"]
        newest_first_sorted [of created_at limit "filter (\<lambda>r. matches nm (sneaker_name r)) coll"]
  by (simp add: min.commute)

lemma flip_fires_unfold:
  "flip_fires py_sum matches store product \<longleftrightarrow>
      (\<exists>p coll. price product = Some p \<and> p \<noteq> 0 \<and> is_in_stock product \<and> store = Some coll
         \<and> get_resell_data matches coll (name product) 10 \<noteq> []
         \<and> fl (fl (fl (fl (py_sum (map resell_price (get_resell_data matches coll (name product) 10))
                            / of_nat (length (get_resell_data matches coll (name product) 10)))
                        - p) / p) * 100) \<ge> 25)"
  by (cases "price product"; cases store)
     (auto simp: flip_fires_def calculate_flip_opportunity_def Let_def)

text \<open>
  C6, as stated, fails. One resale sample is enough: a product at 100 in stock with a
  single matching resale sample at 200 has a margin of 100%, and the flip alert fires.
  Three samples and a margin of 100% are not enough when the product is out of stock.
  And the margin is the one computed in doubles: with a price of 63.64 and the three
  samples 79.58, 79.54 and 79.53 (the doubles nearest to them) Python computes
  24.999999999999993 and no alert is created, although the margin of these doubles
  is above 25% and that of the decimal numbers is 25% exactly. (The sum of the
  samples is a double in each case, so every summation returns it.)
\<close>

theorem flip_fires_on_one_sample:
  "flip_fires seq_sum (\<lambda>a b. a = b)
     (Some [\<lparr> sneaker_name = ''Dunk Low'', resell_price = 200, created_at = 0 \<rparr>])
     \<lparr> name = ''Dunk Low'', sku = ''DD1'', retailer = NIKE, price = Some 100,
        is_in_stock = True, last_checked = hours 2 \<rparr> = True
   \<and> length (get_resell_data (\<lambda>a b. a = b)
     [\<lparr> sneaker_name = ''Dunk Low'', resell_price = 200, created_at = 0 \<rparr>] ''Dunk Low'' 10) < 3
   \<and> flip_fires seq_sum (\<lambda>a b. a = b)
     (Some [\<lparr> sneaker_name = ''Dunk Low'', resell_price = 200, created_at = 0 \<rparr>,
            \<lparr> sneaker_name = ''Dunk Low'', resell_price = 200, created_at = 1 \<rparr>,
            \<lparr> sneaker_name = ''Dunk Low'', resell_price = 200, created_at = 2 \<rparr>])
     \<lparr> name = ''Dunk Low'', sku = ''DD1'', retailer = NIKE, price = Some 100,
        is_in_stock = False, last_checked = hours 2 \<rparr> = False
   \<and> flip_fires seq_sum (\<lambda>a b. a = b)
     (Some [\<lparr> sneaker_name = ''Dunk Low'', resell_price = fl (7958 / 100), created_at = 0 \<rparr>,
            \<lparr> sneaker_name = ''Dunk Low'', resell_price = fl (7954 / 100), created_at = 1 \<rparr>,
            \<lparr> sneaker_name = ''Dunk Low'', resell_price = fl (7953 / 100), created_at = 2 \<rparr>])
     \<lparr> name = ''Dunk Low'', sku = ''DD1'', retailer = NIKE, price = Some (fl (6364 / 100)),
        is_in_stock = True, last_checked = 0 \<rparr> = False
   \<and> ((fl (7958 / 100) + fl (7954 / 100) + fl (7953 / 100)) / 3 - fl (6364 / 100))
        / fl (6364 / 100) * 100 \<ge> 25
   \<and> ((7958 / 100 + 7954 / 100 + 7953 / 100) / 3 - 6364 / 100) / (6364 / 100) * 100 = (25 :: rat)"
  by (simp only: doubles) code_simp

text \<open>
  C6, amended. A flip alert fires exactly when the product has a price other than 0,
  is in stock, the resale query succeeds and returns at least one sample, and the
  margin in percent is at least 25, where the margin is computed as the code does, in
  doubles: \<open>(sum / count - price) / price * 100\<close> with every operation rounded. The
  samples are the at most 10 newest documents whose name matches: they and the
  documents left out make up the matching documents of the collection, none left out
  is newer than a sample, there are 10 of them or all that match, newest first. With
  three samples at 1249 a product at 1000 has a margin of 24.9% and no alert fires;
  neither does one for a product at 51.2 (the double) with one sample at 64, where
  Python computes 24.999999999999993.
\<close>

theorem flip_fires_iff:
  "(flip_fires py_sum matches store product \<longleftrightarrow>
      (\<exists>p coll. price product = Some p \<and> p \<noteq> 0 \<and> is_in_stock product \<and> store = Some coll
         \<and> get_resell_data matches coll (name product) 10 \<noteq> []
         \<and> fl (fl (fl (fl (py_sum (map resell_price (get_resell_data matches coll (name product) 10))
                            / of_nat (length (get_resell_data matches coll (name product) 10)))
                        - p) / p) * 100) \<ge> 25))
   \<and> (\<exists>older. mset (get_resell_data matches rs nm 10) + mset older
                = mset (filter (\<lambda>r. matches nm (sneaker_name r)) rs)
          \<and> (\<forall>r \<in> set older. \<forall>s \<in> set (get_resell_data matches rs nm 10).
                created_at r \<le> created_at s))
   \<and> length (get_resell_data matches rs nm 10)
       = min 10 (length (filter (\<lambda>r. matches nm (sneaker_name r)) rs))
   \<and> sorted (rev (map created_at (get_resell_data matches rs nm 10)))
   \<and> flip_fires seq_sum (\<lambda>a b. a = b)
       (Some [\<lparr> sneaker_name = ''Dunk Low'', resell_price = 1249, created_at = 0 \<rparr>,
              \<lparr> sneaker_name = ''Dunk Low'', resell_price = 1249, created_at = 1 \<rparr>,
              \<lparr> sneaker_name = ''Dunk Low'', resell_price = 1249, created_at = 2 \<rparr>])
       \<lparr> name = ''Dunk Low'', sku = ''DD1'', retailer = NIKE, price = Some 1000,
          is_in_stock = True, last_checked = 0 \<rparr> = False
   \<and> flip_fires seq_sum (\<lambda>a b. a = b)
       (Some [\<lparr> sneaker_name = ''Dunk Low'', resell_price = 64, created_at = 0 \<rparr>])
       \<lparr> name = ''Dunk Low'', sku = ''DD1'', retailer = NIKE, price = Some (fl (512 / 10)),
          is_in_stock = True, last_checked = 0 \<rparr> = False"
proof -
  have a: "flip_fires seq_sum (\<lambda>a b. a = b)
       (Some [\<lparr> sneaker_name = ''Dunk Low'', resell_price = 1249, created_at = 0 \<rparr>,
              \<lparr> sneaker_name = ''Dunk Low'', resell_price = 1249, created_at = 1 \<rparr>,
              \<lparr> sneaker_name = ''Dunk Low'', resell_price = 1249, created_at = 2 \<rparr>])
       \<lparr> name = ''Dunk Low'', sku = ''DD1'', retailer = NIKE, price = Some 1000,
          is_in_stock = True, last_checked = 0 \<rparr> = False"
    by code_simp
  have b: "flip_fires seq_sum (\<lambda>a b. a = b)
       (Some [\<lparr> sneaker_name = ''Dunk Low'', resell_price = 64, created_at = 0 \<rparr>])
       \<lparr> name = ''Dunk Low'', sku = ''DD1'', retailer = NIKE, price = Some (fl (512 / 10)),
          is_in_stock = True, last_checked = 0 \<rparr> = False"
    by (simp only: doubles) code_simp
  show ?thesis
    using flip_fires_unfold [of py_sum matches store product]
          get_resell_data_newest [of matches rs nm 10] a b
    by blast
qed

lemma fl_whole:
  "fl 25 = 25" "fl 100 = 100" "fl 125 = 125" "fl 130 = 130" "fl 255 = 255" "fl 375 = 375"
  "fl (1 / 4) = 1 / 4"
  by code_simp+

theorem flip_fires_iff_witness:
  "flip_fires seq_sum (\<lambda>a b. a = b)
     (Some [\<lparr> sneaker_name = ''Dunk Low'', resell_price = 120, created_at = 0 \<rparr>,
            \<lparr> sneaker_name = ''Dunk High'', resell_price = 10, created_at = 3 \<rparr>,
            \<lparr> sneaker_name = ''Dunk Low'', resell_price = 125, created_at = 1 \<rparr>,
            \<lparr> sneaker_name = ''Dunk Low'', resell_price = 130, created_at = 2 \<rparr>])
     \<lparr> name = ''Dunk Low'', sku = ''DD1'', retailer = NIKE, price = Some 100,
        is_in_stock = True, last_checked = 0 \<rparr>
   \<and> get_resell_data (\<lambda>a b. a = b)
     [\<lparr> sneaker_name = ''Dunk Low'', resell_price = 120, created_at = 0 \<rparr>,
      \<lparr> sneaker_name = ''Dunk High'', resell_price = 10, created_at = 3 \<rparr>,
      \<lparr> sneaker_name = ''Dunk Low'', resell_price = 125, created_at = 1 \<rparr>,
      \<lparr> sneaker_name = ''Dunk Low'', resell_price = 130, created_at = 2 \<rparr>] ''Dunk Low'' 10
     = [\<lparr> sneaker_name = ''Dunk Low'', resell_price = 130, created_at = 2 \<rparr>,
        \<lparr> sneaker_name = ''Dunk Low'', resell_price = 125, created_at = 1 \<rparr>,
        \<lparr> sneaker_name = ''Dunk Low'', resell_price = 120, created_at = 0 \<rparr>]"
  using flip_fires_iff
    [of seq_sum "\<lambda>a b. a = b"
        "Some [\<lparr> sneaker_name = ''Dunk Low'', resell_price = 120, created_at = 0 \<rparr>,
               \<lparr> sneaker_name = ''Dunk High'', resell_price = 10, created_at = 3 \<rparr>,
               \<lparr> sneaker_name = ''Dunk Low'', resell_price = 125, created_at = 1 \<rparr>,
               \<lparr> sneaker_name = ''Dunk Low'', resell_price = 130, created_at = 2 \<rparr>]"
        "\<lparr> name = ''Dunk Low'', sku = ''DD1'', retailer = NIKE, price = Some 100,
           is_in_stock = True, last_checked = 0 \<rparr>"]
  by (simp add: get_resell_data_def seq_sum_def fl_whole)

section \<open>Properties of the alert cooldown\<close>

lemma latest_None_iff: "latest h = None \<longleftrightarrow> h = []"
  by (induction h) (auto split: option.splits)

lemma latest_is_greatest:
  "latest h = Some l \<Longrightarrow> l \<in> set h \<and> (\<forall>b \<in> set h. ah_created_at b \<le> ah_created_at l)"
proof (induction h arbitrary: l)
  case Nil
  then show ?case by simp
next
  case (Cons a h)
  show ?case
  proof (cases "latest h")
    case None
    then have "h = []" by (simp add: latest_None_iff)
    then show ?thesis using Cons.prems by simp
  next
    case (Some b)
    then have b: "b \<in> set h" "\<forall>c \<in> set h. ah_created_at c \<le> ah_created_at b"
      using Cons.IH by auto
    show ?thesis
    proof (cases "ah_created_at a < ah_created_at b")
      case True
      then have "l = b" using Cons.prems Some by simp
      then show ?thesis using b True by auto
    next
      case False
      then have "l = a" using Cons.prems Some by simp
      then show ?thesis using b False by fastforce
    qed
  qed
qed

text \<open>
  When the history is read and the answer is "not in cooldown", every record of the
  key in the history is at least 300 seconds old.
\<close>

lemma out_of_cooldown:
  assumes "\<not> is_in_cooldown hist True u nm ty now" and "b \<in> set hist" and "same_alert u nm ty b"
  shows "ah_created_at b + seconds sender_alert_cooldown \<le> now"
proof -
  have inb: "b \<in> set (filter (same_alert u nm ty) hist)" using assms(2,3) by simp
  then have "latest (filter (same_alert u nm ty) hist) \<noteq> None"
    by (metis empty_iff latest_None_iff list.set(1))
  then obtain l where l: "latest (filter (same_alert u nm ty) hist) = Some l" by blast
  then have "ah_created_at b \<le> ah_created_at l"
    using latest_is_greatest inb by blast
  moreover have "\<not> now - ah_created_at l < seconds sender_alert_cooldown"
    using assms(1) l by (simp add: is_in_cooldown_def get_last_alert_for_sneaker_def)
  ultimately show ?thesis by linarith
qed

lemma spaced_snoc:
  "spaced (h @ [a]) \<longleftrightarrow> spaced h \<and> (\<forall>b \<in> set h. far_apart b a)"
  by (induction h) (auto simp: list_all_iff)

lemma spaced_nth:
  "spaced xs \<Longrightarrow> i < j \<Longrightarrow> j < length xs \<Longrightarrow> far_apart (xs ! i) (xs ! j)"
proof (induction xs arbitrary: i j)
  case Nil
  then show ?case by simp
next
  case (Cons x xs)
  from Cons.prems(2) obtain j' where j: "j = Suc j'" by (cases j) auto
  show ?case
  proof (cases i)
    case 0
    have "xs ! j' \<in> set xs" using Cons.prems(3) j by simp
    then show ?thesis using Cons.prems(1) 0 j by (simp add: list_all_iff)
  next
    case (Suc i')
    then show ?thesis using Cons j by simp
  qed
qed

lemma logged_append: "logged hist m \<Longrightarrow> logged (hist @ more_records) m"
  by (auto simp: logged_def list_ex_iff split: if_splits)

text \<open>A round that nothing overlaps and in which the database answers keeps the messages spaced.\<close>

lemma send_to_user_well_logged:
  assumes "well_logged st" and "in_order d"
  shows "well_logged (fst (send_to_user st nm ty d))"
proof (cases "may_send (history st) nm ty d \<and> send_ok d")
  case False
  then show ?thesis using assms(1) by (auto simp: send_to_user_def send_and_log_def)
next
  case True
  define a where "a = \<lparr> user_id = to_user d, ah_sneaker_name = nm, ah_alert_type = ty,
                         ah_created_at = log_time d \<rparr>"
  define m where "m = \<lparr> msg_user = to_user d, msg_sneaker_name = nm, msg_alert_type = ty,
                         msg_time = send_time d \<rparr>"
  have res: "fst (send_to_user st nm ty d)
               = \<lparr> history = history st @ [a], messages = messages st @ [m] \<rparr>"
    using True assms(2)
    by (simp add: send_to_user_def send_and_log_def log_alert_def add_alert_history_def
        in_order_def a_def m_def)
  have old: "list_all (logged (history st)) (messages st)" and sp: "spaced (messages st)"
    using assms(1) by (simp_all add: well_logged_def)
  have pos: "0 \<le> seconds sender_alert_cooldown"
    by (simp add: seconds_def sender_alert_cooldown_def)
  have new_logged: "logged (history st @ [a]) m"
    using assms(2) by (simp add: logged_def a_def m_def same_alert_def in_order_def)
  have old_logged: "list_all (logged (history st @ [a])) (messages st)"
    using old logged_append by (auto simp: list_all_iff)
  have "\<forall>b \<in> set (messages st). far_apart b m"
  proof
    fix b assume b: "b \<in> set (messages st)"
    show "far_apart b m"
    proof (cases "same_key b m \<and> checks_cooldown (msg_alert_type b)")
      case False
      then show ?thesis by (auto simp: far_apart_def)
    next
      case same: True
      then have key: "msg_user b = to_user d" "msg_sneaker_name b = nm" "msg_alert_type b = ty"
        and cool: "checks_cooldown ty"
        by (auto simp: same_key_def m_def)
      have "logged (history st) b" using old b by (simp add: list_all_iff)
      then obtain r where r: "r \<in> set (history st)" "same_alert (to_user d) nm ty r"
        "msg_time b \<le> ah_created_at r"
        using key cool by (auto simp: logged_def list_ex_iff)
      have "\<not> is_in_cooldown (history st) True (to_user d) nm ty (check_time d)"
        using True cool assms(2) by (auto simp: may_send_def in_order_def split: if_splits)
      then have "ah_created_at r + seconds sender_alert_cooldown \<le> check_time d"
        using r by (intro out_of_cooldown) auto
      then have "msg_time b + seconds sender_alert_cooldown \<le> send_time d"
        using r(3) assms(2) by (simp add: in_order_def)
      then show ?thesis using pos by (simp add: far_apart_def m_def)
    qed
  qed
  then show ?thesis
    using res sp new_logged old_logged by (simp add: well_logged_def spaced_snoc)
qed

lemma send_alert_to_users_well_logged:
  "well_logged st \<Longrightarrow> list_all in_order ds \<Longrightarrow>
   well_logged (fst (send_alert_to_users st nm ty ds))"
proof (induction ds arbitrary: st)
  case Nil
  then show ?case by simp
next
  case (Cons d ds)
  have "well_logged (fst (send_to_user st nm ty d))"
    using Cons.prems by (simp add: send_to_user_well_logged)
  then have "well_logged (fst (send_alert_to_users (fst (send_to_user st nm ty d)) nm ty ds))"
    using Cons.IH Cons.prems(2) by simp
  then show ?case by (simp add: case_prod_beta)
qed

lemma send_calls_well_logged:
  "well_logged st \<Longrightarrow> list_all (\<lambda>c. list_all in_order (snd (snd c))) calls \<Longrightarrow>
   well_logged (send_calls st calls)"
proof (induction calls arbitrary: st)
  case Nil
  then show ?case by simp
next
  case (Cons c calls)
  obtain nm ty ds where c: "c = (nm, ty, ds)" by (cases c)
  have "well_logged (fst (send_alert_to_users st nm ty ds))"
    using Cons.prems c by (simp add: send_alert_to_users_well_logged)
  then show ?case using Cons.IH Cons.prems(2) c by simp
qed

lemma no_alerts_well_logged: "well_logged no_alerts"
  by (simp add: well_logged_def no_alerts_def)

text \<open>
  C7, as stated, fails. The sender's cooldown is 300 seconds, not two hours: a restock
  alert is sent, and ten minutes later the same alert is sent to the same user again.
  \<open>_send_alert\<close> of the monitoring engine has no cooldown at all: the same alert
  queued twice for a premium user is sent twice, one second apart. And within the
  300 seconds the sender sends the same alert again, a second after the first, when
  the history cannot be read (the check then answers "not in cooldown"); when the log
  of the first alert has failed (the message has gone out all the same and the history
  knows nothing of it); when two rounds for the key overlap, both making their checks
  before either has written its record; and when the alert is an early-access alert,
  whose sender asks for no cooldown. It also sends again after 290 seconds when the
  clock was set back ten seconds between the send and the log of the first alert.
\<close>

theorem same_alert_sent_again_within_two_hours:
  "send_calls no_alerts
     [(''Dunk Low'', RESTOCK, [\<lparr> to_user = 7, can_send = True, read_ok = True, check_time = 0,
          send_ok = True, send_time = 0, log_ok = True, log_time = 0 \<rparr>]),
      (''Dunk Low'', RESTOCK, [\<lparr> to_user = 7, can_send = True, read_ok = True, check_time = minutes 10,
          send_ok = True, send_time = minutes 10, log_ok = True, log_time = minutes 10 \<rparr>])]
   = \<lparr> history = [\<lparr> user_id = 7, ah_sneaker_name = ''Dunk Low'', ah_alert_type = RESTOCK,
          ah_created_at = 0 \<rparr>,
                  \<lparr> user_id = 7, ah_sneaker_name = ''Dunk Low'', ah_alert_type = RESTOCK,
          ah_created_at = minutes 10 \<rparr>],
       messages = [\<lparr> msg_user = 7, msg_sneaker_name = ''Dunk Low'', msg_alert_type = RESTOCK,
          msg_time = 0 \<rparr>,
                   \<lparr> msg_user = 7, msg_sneaker_name = ''Dunk Low'', msg_alert_type = RESTOCK,
          msg_time = minutes 10 \<rparr>] \<rparr>
   \<and> minutes 10 - 0 < hours 2
   \<and> snd (process_alerts
       [7 \<mapsto> \<lparr> tier = PREMIUM, subscription_expires_at = None, alerts_sent_this_month = 0,
               alerts_reset_date = 0 \<rparr>]
       \<lparr> maxsize = 0,
         items = [\<lparr> user_telegram_id = 7, product_sku = ''DD1'', alert_kind = RESTOCK \<rparr>,
                  \<lparr> user_telegram_id = 7, product_sku = ''DD1'', alert_kind = RESTOCK \<rparr>] \<rparr>
       (\<lambda>n. \<lparr> at_time = seconds (int n), month_start = 0, lookup_ok = True,
               message_ok = True, store_ok = True \<rparr>) 0)
     = [(\<lparr> user_telegram_id = 7, product_sku = ''DD1'', alert_kind = RESTOCK \<rparr>, True),
        (\<lparr> user_telegram_id = 7, product_sku = ''DD1'', alert_kind = RESTOCK \<rparr>, True)]
   \<and> messages (send_calls no_alerts
     [(''Dunk Low'', RESTOCK, [\<lparr> to_user = 7, can_send = True, read_ok = True, check_time = 0,
          send_ok = True, send_time = seconds 1, log_ok = True, log_time = seconds 1 \<rparr>]),
      (''Dunk Low'', RESTOCK, [\<lparr> to_user = 7, can_send = True, read_ok = False, check_time = seconds 2,
          send_ok = True, send_time = seconds 2, log_ok = True, log_time = seconds 2 \<rparr>])])
   = [\<lparr> msg_user = 7, msg_sneaker_name = ''Dunk Low'', msg_alert_type = RESTOCK,
          msg_time = seconds 1 \<rparr>,
      \<lparr> msg_user = 7, msg_sneaker_name = ''Dunk Low'', msg_alert_type = RESTOCK,
          msg_time = seconds 2 \<rparr>]
   \<and> send_calls no_alerts
     [(''Dunk Low'', RESTOCK, [\<lparr> to_user = 7, can_send = True, read_ok = True, check_time = 0,
          send_ok = True, send_time = seconds 1, log_ok = False, log_time = seconds 1 \<rparr>]),
      (''Dunk Low'', RESTOCK, [\<lparr> to_user = 7, can_send = True, read_ok = True, check_time = seconds 2,
          send_ok = True, send_time = seconds 2, log_ok = True, log_time = seconds 2 \<rparr>])]
   = \<lparr> history = [\<lparr> user_id = 7, ah_sneaker_name = ''Dunk Low'', ah_alert_type = RESTOCK,
          ah_created_at = seconds 2 \<rparr>],
       messages = [\<lparr> msg_user = 7, msg_sneaker_name = ''Dunk Low'', msg_alert_type = RESTOCK,
          msg_time = seconds 1 \<rparr>,
                   \<lparr> msg_user = 7, msg_sneaker_name = ''Dunk Low'', msg_alert_type = RESTOCK,
          msg_time = seconds 2 \<rparr>] \<rparr>
   \<and> may_send (history no_alerts) ''Dunk Low'' RESTOCK
     \<lparr> to_user = 7, can_send = True, read_ok = True, check_time = 0,
          send_ok = True, send_time = seconds 1, log_ok = True, log_time = seconds 1 \<rparr>
   \<and> may_send (history no_alerts) ''Dunk Low'' RESTOCK
     \<lparr> to_user = 7, can_send = True, read_ok = True, check_time = 0,
          send_ok = True, send_time = seconds 2, log_ok = True, log_time = seconds 2 \<rparr>
   \<and> in_order \<lparr> to_user = 7, can_send = True, read_ok = True, check_time = 0,
          send_ok = True, send_time = seconds 1, log_ok = True, log_time = seconds 1 \<rparr>
   \<and> in_order \<lparr> to_user = 7, can_send = True, read_ok = True, check_time = 0,
          send_ok = True, send_time = seconds 2, log_ok = True, log_time = seconds 2 \<rparr>
   \<and> messages (fst (send_and_log (fst (send_and_log no_alerts ''Dunk Low'' RESTOCK
        \<lparr> to_user = 7, can_send = True, read_ok = True, check_time = 0,
          send_ok = True, send_time = seconds 1, log_ok = True, log_time = seconds 1 \<rparr>)) ''Dunk Low'' RESTOCK
        \<lparr> to_user = 7, can_send = True, read_ok = True, check_time = 0,
          send_ok = True, send_time = seconds 2, log_ok = True, log_time = seconds 2 \<rparr>))
     = [\<lparr> msg_user = 7, msg_sneaker_name = ''Dunk Low'', msg_alert_type = RESTOCK,
          msg_time = seconds 1 \<rparr>,
        \<lparr> msg_user = 7, msg_sneaker_name = ''Dunk Low'', msg_alert_type = RESTOCK,
          msg_time = seconds 2 \<rparr>]
   \<and> messages (send_calls no_alerts
     [(''Dunk Low'', EARLY_ACCESS, [\<lparr> to_user = 7, can_send = True, read_ok = True, check_time = 0,
          send_ok = True, send_time = seconds 1, log_ok = True, log_time = seconds 1 \<rparr>]),
      (''Dunk Low'', EARLY_ACCESS, [\<lparr> to_user = 7, can_send = True, read_ok = True, check_time = seconds 2,
          send_ok = True, send_time = seconds 2, log_ok = True, log_time = seconds 2 \<rparr>])])
   = [\<lparr> msg_user = 7, msg_sneaker_name = ''Dunk Low'', msg_alert_type = EARLY_ACCESS,
          msg_time = seconds 1 \<rparr>,
      \<lparr> msg_user = 7, msg_sneaker_name = ''Dunk Low'', msg_alert_type = EARLY_ACCESS,
          msg_time = seconds 2 \<rparr>]
   \<and> messages (send_calls no_alerts
     [(''Dunk Low'', RESTOCK, [\<lparr> to_user = 7, can_send = True, read_ok = True, check_time = seconds 10,
          send_ok = True, send_time = seconds 10, log_ok = True, log_time = 0 \<rparr>]),
      (''Dunk Low'', RESTOCK, [\<lparr> to_user = 7, can_send = True, read_ok = True, check_time = seconds 300,
          send_ok = True, send_time = seconds 300, log_ok = True, log_time = seconds 300 \<rparr>])])
   = [\<lparr> msg_user = 7, msg_sneaker_name = ''Dunk Low'', msg_alert_type = RESTOCK,
          msg_time = seconds 10 \<rparr>,
      \<lparr> msg_user = 7, msg_sneaker_name = ''Dunk Low'', msg_alert_type = RESTOCK,
          msg_time = seconds 300 \<rparr>]
   \<and> seconds 300 - seconds 10 < seconds 300"
  by (simp add: send_to_user_def may_send_def send_and_log_def log_alert_def is_in_cooldown_def
      get_last_alert_for_sneaker_def same_alert_def add_alert_history_def
      sender_alert_cooldown_def no_alerts_def in_order_def same_key_def
      minutes_def hours_def seconds_def send_alert_def
      can_send_alert_def is_premium_def get_def process_alerts.simps)

text \<open>
  C7, amended. In \<open>AlertSender\<close>, a restock, price-drop or resell-deal alert (and no
  other) is checked, before it is sent, against the last alert logged for the same
  user, sneaker name and alert type: it is in cooldown exactly when the history can be
  read and that alert is less than 300 seconds old, and it is then skipped, neither
  sent nor logged nor kept for later. So when the calls do not overlap, every read and
  write of the history succeeds, and in each round the check, the send and the log
  follow in time, then from an empty history any two messages sent to one user for
  one sneaker name and one of these alert types are at least 300 seconds apart.
  \<open>_send_alert\<close> of the monitoring engine sends whenever the user is found, may
  receive alerts by the monthly quota and the message goes out: it has no cooldown.
\<close>

theorem sender_cooldown_300_seconds:
  "(is_in_cooldown hist ok u nm ty now \<longleftrightarrow>
      ok \<and> (\<exists>a. get_last_alert_for_sneaker hist u nm ty = Some a
                \<and> now - ah_created_at a < seconds 300))
   \<and> (checks_cooldown ty0 \<longleftrightarrow> ty0 = RESTOCK \<or> ty0 = PRICE_DROP \<or> ty0 = RESELL_DEAL)
   \<and> (checks_cooldown ty1
        \<and> is_in_cooldown (history st) (read_ok d) (to_user d) nm1 ty1 (check_time d) \<longrightarrow>
        send_to_user st nm1 ty1 d = (st, False))
   \<and> (list_all (\<lambda>c. list_all in_order (snd (snd c))) calls
        \<and> i < j \<and> j < length (messages (send_calls no_alerts calls))
        \<and> same_key (messages (send_calls no_alerts calls) ! i)
                    (messages (send_calls no_alerts calls) ! j)
        \<and> checks_cooldown (msg_alert_type (messages (send_calls no_alerts calls) ! i)) \<longrightarrow>
        \<bar>msg_time (messages (send_calls no_alerts calls) ! j)
           - msg_time (messages (send_calls no_alerts calls) ! i)\<bar> \<ge> seconds 300)
   \<and> (snd (send_alert users al h) \<longleftrightarrow>
        lookup_ok h \<and> message_ok h
        \<and> (\<exists>usr. users (user_telegram_id al) = Some usr
                  \<and> can_send_alert usr (at_time h) (month_start h)))"
proof (intro conjI impI)
  show "is_in_cooldown hist ok u nm ty now \<longleftrightarrow>
      ok \<and> (\<exists>a. get_last_alert_for_sneaker hist u nm ty = Some a
                \<and> now - ah_created_at a < seconds 300)"
    by (cases "get_last_alert_for_sneaker hist u nm ty")
       (simp_all add: is_in_cooldown_def sender_alert_cooldown_def)
next
  show "checks_cooldown ty0 \<longleftrightarrow> ty0 = RESTOCK \<or> ty0 = PRICE_DROP \<or> ty0 = RESELL_DEAL"
    by (cases ty0) simp_all
next
  assume "checks_cooldown ty1
        \<and> is_in_cooldown (history st) (read_ok d) (to_user d) nm1 ty1 (check_time d)"
  then show "send_to_user st nm1 ty1 d = (st, False)"
    by (simp add: send_to_user_def may_send_def)
next
  assume a: "list_all (\<lambda>c. list_all in_order (snd (snd c))) calls
        \<and> i < j \<and> j < length (messages (send_calls no_alerts calls))
        \<and> same_key (messages (send_calls no_alerts calls) ! i)
                    (messages (send_calls no_alerts calls) ! j)
        \<and> checks_cooldown (msg_alert_type (messages (send_calls no_alerts calls) ! i))"
  then have "well_logged (send_calls no_alerts calls)"
    using send_calls_well_logged [of no_alerts calls] no_alerts_well_logged by simp
  then have "spaced (messages (send_calls no_alerts calls))"
    by (simp add: well_logged_def)
  then have "far_apart (messages (send_calls no_alerts calls) ! i)
                       (messages (send_calls no_alerts calls) ! j)"
    using a spaced_nth by blast
  then show "\<bar>msg_time (messages (send_calls no_alerts calls) ! j)
           - msg_time (messages (send_calls no_alerts calls) ! i)\<bar> \<ge> seconds 300"
    using a by (simp add: far_apart_def sender_alert_cooldown_def)
next
  show "snd (send_alert users al h) \<longleftrightarrow>
        lookup_ok h \<and> message_ok h
        \<and> (\<exists>usr. users (user_telegram_id al) = Some usr
                  \<and> can_send_alert usr (at_time h) (month_start h))"
    by (cases "users (user_telegram_id al)") (auto simp: send_alert_def)
qed

theorem sender_cooldown_300_seconds_witness:
  "is_in_cooldown
     [\<lparr> user_id = 7, ah_sneaker_name = ''Dunk Low'', ah_alert_type = RESTOCK,
          ah_created_at = seconds 2 \<rparr>] True 7 ''Dunk Low'' RESTOCK (seconds 100)
   \<and> checks_cooldown RESTOCK
   \<and> send_to_user
       \<lparr> history = [\<lparr> user_id = 7, ah_sneaker_name = ''Dunk Low'', ah_alert_type = RESTOCK,
          ah_created_at = seconds 2 \<rparr>], messages = [\<lparr> msg_user = 7, msg_sneaker_name = ''Dunk Low'', msg_alert_type = RESTOCK,
          msg_time = seconds 1 \<rparr>] \<rparr> ''Dunk Low'' RESTOCK
       \<lparr> to_user = 7, can_send = True, read_ok = True, check_time = seconds 100,
          send_ok = True, send_time = seconds 101, log_ok = True, log_time = seconds 102 \<rparr>
     = (\<lparr> history = [\<lparr> user_id = 7, ah_sneaker_name = ''Dunk Low'', ah_alert_type = RESTOCK,
          ah_created_at = seconds 2 \<rparr>], messages = [\<lparr> msg_user = 7, msg_sneaker_name = ''Dunk Low'', msg_alert_type = RESTOCK,
          msg_time = seconds 1 \<rparr>] \<rparr>, False)
   \<and> list_all in_order
       [\<lparr> to_user = 7, can_send = True, read_ok = True, check_time = 0,
          send_ok = True, send_time = seconds 1, log_ok = True, log_time = seconds 2 \<rparr>,
        \<lparr> to_user = 7, can_send = True, read_ok = True, check_time = seconds 100,
          send_ok = True, send_time = seconds 101, log_ok = True, log_time = seconds 102 \<rparr>,
        \<lparr> to_user = 7, can_send = True, read_ok = True, check_time = seconds 302,
          send_ok = True, send_time = seconds 303, log_ok = True, log_time = seconds 304 \<rparr>]
   \<and> send_calls no_alerts
     [(''Dunk Low'', RESTOCK,
       [\<lparr> to_user = 7, can_send = True, read_ok = True, check_time = 0,
          send_ok = True, send_time = seconds 1, log_ok = True, log_time = seconds 2 \<rparr>,
        \<lparr> to_user = 7, can_send = True, read_ok = True, check_time = seconds 100,
          send_ok = True, send_time = seconds 101, log_ok = True, log_time = seconds 102 \<rparr>,
        \<lparr> to_user = 7, can_send = True, read_ok = True, check_time = seconds 302,
          send_ok = True, send_time = seconds 303, log_ok = True, log_time = seconds 304 \<rparr>])]
     = \<lparr> history = [\<lparr> user_id = 7, ah_sneaker_name = ''Dunk Low'', ah_alert_type = RESTOCK,
          ah_created_at = seconds 2 \<rparr>,
                    \<lparr> user_id = 7, ah_sneaker_name = ''Dunk Low'', ah_alert_type = RESTOCK,
          ah_created_at = seconds 304 \<rparr>],
         messages = [\<lparr> msg_user = 7, msg_sneaker_name = ''Dunk Low'', msg_alert_type = RESTOCK,
          msg_time = seconds 1 \<rparr>,
                     \<lparr> msg_user = 7, msg_sneaker_name = ''Dunk Low'', msg_alert_type = RESTOCK,
          msg_time = seconds 303 \<rparr>] \<rparr>
   \<and> \<bar>seconds 303 - seconds 1\<bar> \<ge> seconds 300
   \<and> snd (send_alert [7 \<mapsto> \<lparr> tier = PREMIUM, subscription_expires_at = None, alerts_sent_this_month = 0,
               alerts_reset_date = 0 \<rparr>] \<lparr> user_telegram_id = 7, product_sku = ''DD1'', alert_kind = RESTOCK \<rparr>
       \<lparr> at_time = 0, month_start = 0, lookup_ok = True, message_ok = True, store_ok = True \<rparr>)"
  using sender_cooldown_300_seconds
    [of "[\<lparr> user_id = 7, ah_sneaker_name = ''Dunk Low'', ah_alert_type = RESTOCK,
          ah_created_at = seconds 2 \<rparr>]" True 7 "''Dunk Low''" RESTOCK "seconds 100" RESTOCK RESTOCK
        "\<lparr> history = [\<lparr> user_id = 7, ah_sneaker_name = ''Dunk Low'', ah_alert_type = RESTOCK,
          ah_created_at = seconds 2 \<rparr>], messages = [\<lparr> msg_user = 7, msg_sneaker_name = ''Dunk Low'', msg_alert_type = RESTOCK,
          msg_time = seconds 1 \<rparr>] \<rparr>"
        "\<lparr> to_user = 7, can_send = True, read_ok = True, check_time = seconds 100,
          send_ok = True, send_time = seconds 101, log_ok = True, log_time = seconds 102 \<rparr>" "''Dunk Low''"
        "[(''Dunk Low'', RESTOCK,
           [\<lparr> to_user = 7, can_send = True, read_ok = True, check_time = 0,
          send_ok = True, send_time = seconds 1, log_ok = True, log_time = seconds 2 \<rparr>,
            \<lparr> to_user = 7, can_send = True, read_ok = True, check_time = seconds 100,
          send_ok = True, send_time = seconds 101, log_ok = True, log_time = seconds 102 \<rparr>,
            \<lparr> to_user = 7, can_send = True, read_ok = True, check_time = seconds 302,
          send_ok = True, send_time = seconds 303, log_ok = True, log_time = seconds 304 \<rparr>])]" 0 1
        "[7 \<mapsto> \<lparr> tier = PREMIUM, subscription_expires_at = None, alerts_sent_this_month = 0,
               alerts_reset_date = 0 \<rparr>]" "\<lparr> user_telegram_id = 7, product_sku = ''DD1'', alert_kind = RESTOCK \<rparr>"
        "\<lparr> at_time = 0, month_start = 0, lookup_ok = True, message_ok = True, store_ok = True \<rparr>"]
  by (simp add: send_to_user_def may_send_def send_and_log_def log_alert_def is_in_cooldown_def
      get_last_alert_for_sneaker_def same_alert_def add_alert_history_def
      sender_alert_cooldown_def no_alerts_def in_order_def same_key_def
      minutes_def hours_def seconds_def send_alert_def
      can_send_alert_def is_premium_def)

section \<open>Properties of the alert queue\<close>

lemma put_all_unbounded:
  "maxsize q \<le> 0 \<Longrightarrow> put_all q xs = Some (q\<lparr> items := items q @ xs \<rparr>)"
proof (induction xs arbitrary: q)
  case Nil
  then show ?case by simp
next
  case (Cons x xs)
  have "put q x = Some (q\<lparr> items := items q @ [x] \<rparr>)"
    using Cons.prems by (simp add: put_def full_def)
  moreover have "put_all (q\<lparr> items := items q @ [x] \<rparr>) xs
                   = Some (q\<lparr> items := (items q @ [x]) @ xs \<rparr>)"
    using Cons.IH [of "q\<lparr> items := items q @ [x] \<rparr>"] Cons.prems by simp
  ultimately show ?case by simp
qed

lemma process_alerts_fifo:
  "map fst (snd (process_alerts users q clock n)) = items q"
proof (induction users q clock n rule: process_alerts.induct)
  case (1 users q clock n)
  show ?case
  proof (cases "items q")
    case Nil
    then show ?thesis by (subst process_alerts.simps) (simp add: get_def)
  next
    case (Cons a rest)
    obtain users' sent where s: "send_alert users a (clock n) = (users', sent)"
      by (cases "send_alert users a (clock n)")
    have g: "get q = Some (a, q\<lparr> items := rest \<rparr>)" using Cons by (simp add: get_def)
    have "map fst (snd (process_alerts users' (q\<lparr> items := rest \<rparr>) clock (Suc n))) = rest"
      using "1.IH" [OF g refl s [symmetric]] by simp
    then show ?thesis
      using g s Cons by (subst process_alerts.simps) (simp add: case_prod_beta)
  qed
qed

text \<open>
  C8, as stated, fails: the queue has no capacity bound. With a hundred thousand
  alerts waiting it is not full, and the next \<open>put\<close> returns at once with the alert
  appended.
\<close>

theorem alert_queue_never_full:
  "\<not> full (alert_queue\<lparr> items := replicate 100000
        \<lparr> user_telegram_id = 7, product_sku = ''DD1'', alert_kind = RESTOCK \<rparr> \<rparr>)
   \<and> put (alert_queue\<lparr> items := replicate 100000
        \<lparr> user_telegram_id = 7, product_sku = ''DD1'', alert_kind = RESTOCK \<rparr> \<rparr>)
        \<lparr> user_telegram_id = 8, product_sku = ''DD1'', alert_kind = RESTOCK \<rparr>
     = Some (alert_queue\<lparr> items := replicate 100000
        \<lparr> user_telegram_id = 7, product_sku = ''DD1'', alert_kind = RESTOCK \<rparr>
        @ [\<lparr> user_telegram_id = 8, product_sku = ''DD1'', alert_kind = RESTOCK \<rparr>] \<rparr>)
   \<and> length (replicate 100000
        \<lparr> user_telegram_id = 7, product_sku = ''DD1'', alert_kind = RESTOCK \<rparr>) = 100000"
  by (simp add: full_def put_def alert_queue_def Queue_def)

text \<open>
  C8, amended. The alert queue is unbounded: it is never full, and putting any list
  of alerts on it never waits and drops nothing, the alerts standing in the queue in
  the order put. The single consumer handles the alerts of the queue one after the
  other, oldest first, each exactly once.
\<close>

theorem alert_queue_unbounded_fifo:
  "\<not> full (alert_queue\<lparr> items := xs \<rparr>)
   \<and> put_all alert_queue xs = Some (alert_queue\<lparr> items := xs \<rparr>)
   \<and> map fst (snd (process_alerts users (alert_queue\<lparr> items := alerts \<rparr>) clock n)) = alerts"
proof (intro conjI)
  show "\<not> full (alert_queue\<lparr> items := xs \<rparr>)"
    by (simp add: full_def alert_queue_def Queue_def)
  show "put_all alert_queue xs = Some (alert_queue\<lparr> items := xs \<rparr>)"
    using put_all_unbounded [of alert_queue xs] by (simp add: alert_queue_def Queue_def)
  show "map fst (snd (process_alerts users (alert_queue\<lparr> items := alerts \<rparr>) clock n)) = alerts"
    using process_alerts_fifo [of users "alert_queue\<lparr> items := alerts \<rparr>" clock n] by simp
qed

theorem alert_queue_unbounded_fifo_witness:
  "put_all alert_queue
     [\<lparr> user_telegram_id = 7, product_sku = ''DD1'', alert_kind = RESTOCK \<rparr>,
      \<lparr> user_telegram_id = 8, product_sku = ''DD1'', alert_kind = PRICE_DROP \<rparr>]
   = Some \<lparr> maxsize = 0,
       items = [\<lparr> user_telegram_id = 7, product_sku = ''DD1'', alert_kind = RESTOCK \<rparr>,
                \<lparr> user_telegram_id = 8, product_sku = ''DD1'', alert_kind = PRICE_DROP \<rparr>] \<rparr>
   \<and> snd (process_alerts
       [7 \<mapsto> \<lparr> tier = PREMIUM, subscription_expires_at = None, alerts_sent_this_month = 0,
               alerts_reset_date = 0 \<rparr>]
       \<lparr> maxsize = 0,
         items = [\<lparr> user_telegram_id = 7, product_sku = ''DD1'', alert_kind = RESTOCK \<rparr>,
                  \<lparr> user_telegram_id = 8, product_sku = ''DD1'', alert_kind = PRICE_DROP \<rparr>] \<rparr>
       (\<lambda>n. \<lparr> at_time = seconds (int n), month_start = 0, lookup_ok = True,
               message_ok = True, store_ok = True \<rparr>) 0)
     = [(\<lparr> user_telegram_id = 7, product_sku = ''DD1'', alert_kind = RESTOCK \<rparr>, True),
        (\<lparr> user_telegram_id = 8, product_sku = ''DD1'', alert_kind = PRICE_DROP \<rparr>, False)]"
  using alert_queue_unbounded_fifo
    [of "[\<lparr> user_telegram_id = 7, product_sku = ''DD1'', alert_kind = RESTOCK \<rparr>,
          \<lparr> user_telegram_id = 8, product_sku = ''DD1'', alert_kind = PRICE_DROP \<rparr>]"
        "[7 \<mapsto> \<lparr> tier = PREMIUM, subscription_expires_at = None, alerts_sent_this_month = 0,
               alerts_reset_date = 0 \<rparr>]"
        "[\<lparr> user_telegram_id = 7, product_sku = ''DD1'', alert_kind = RESTOCK \<rparr>,
          \<lparr> user_telegram_id = 8, product_sku = ''DD1'', alert_kind = PRICE_DROP \<rparr>]"
        "\<lambda>n. \<lparr> at_time = seconds (int n), month_start = 0, lookup_ok = True,
               message_ok = True, store_ok = True \<rparr>" 0]
  by (simp add: alert_queue_def Queue_def send_alert_def can_send_alert_def is_premium_def
      get_def process_alerts.simps)

section \<open>Properties of the health alerts\<close>

lemma alerts_to_send_fields:
  "a \<in> set (alerts_to_send metrics now) \<Longrightarrow>
   ha_retailer a = hm_retailer metrics \<and> timestamp a = now"
  by (auto simp: alerts_to_send_def split: if_splits)

lemma alerts_to_send_spaced: "alerts_spaced (alerts_to_send metrics now)"
  by (simp add: alerts_to_send_def later_enough_def)

lemma alerts_to_send_nonempty:
  "alerts_to_send metrics now \<noteq> [] \<longleftrightarrow>
     (status metrics = CRITICAL \<or> status metrics = DOWN
      \<or> ''site_changes'' \<in> set (error_patterns metrics)
      \<or> ''rate_limiting'' \<in> set (error_patterns metrics))"
  by (simp add: alerts_to_send_def)

lemma alerts_spaced_append:
  "alerts_spaced (xs @ ys) \<longleftrightarrow>
     alerts_spaced xs \<and> alerts_spaced ys \<and> (\<forall>a \<in> set xs. \<forall>b \<in> set ys. later_enough a b)"
  by (induction xs) (auto simp: list_all_iff)

lemma alerts_spaced_nth:
  "alerts_spaced xs \<Longrightarrow> i < j \<Longrightarrow> j < length xs \<Longrightarrow> later_enough (xs ! i) (xs ! j)"
proof (induction xs arbitrary: i j)
  case Nil
  then show ?case by simp
next
  case (Cons x xs)
  from Cons.prems(2) obtain j' where j: "j = Suc j'" by (cases j) auto
  show ?case
  proof (cases i)
    case 0
    have "xs ! j' \<in> set xs" using Cons.prems(3) j by simp
    then show ?thesis using Cons.prems(1) 0 j by (simp add: list_all_iff)
  next
    case (Suc i')
    then show ?thesis using Cons j by simp
  qed
qed

lemma check_keeps_spacing:
  assumes cov: "covered la past" and sp: "alerts_spaced past"
    and chk: "check_for_alerts la metrics now = (la', raised)"
  shows "alerts_spaced (past @ raised) \<and> covered la' (past @ raised)"
proof (cases "case la (hm_retailer metrics) of None \<Rightarrow> False
              | Some last_alert \<Rightarrow> now - last_alert < seconds monitor_alert_cooldown")
  case True
  then have "la' = la" and "raised = []"
    using chk by (auto simp: check_for_alerts_def alerts_due_def record_alerts_def Let_def)
  then show ?thesis using cov sp by simp
next
  case False
  then have raised: "raised = alerts_to_send metrics now"
    and la': "la' = (if raised = [] then la else la(hm_retailer metrics \<mapsto> now))"
    using chk by (auto simp: check_for_alerts_def alerts_due_def record_alerts_def Let_def)
  have old: "\<And>a. a \<in> set past \<Longrightarrow> ha_retailer a = hm_retailer metrics \<Longrightarrow>
                 timestamp a + seconds monitor_alert_cooldown \<le> now"
  proof -
    fix a assume a: "a \<in> set past" and r: "ha_retailer a = hm_retailer metrics"
    from cov a r obtain t where t: "la (hm_retailer metrics) = Some t" and le: "timestamp a \<le> t"
      by (auto simp: covered_def list_all_iff split: option.splits)
    from False t have "\<not> now - t < seconds monitor_alert_cooldown" by simp
    then show "timestamp a + seconds monitor_alert_cooldown \<le> now" using le by linarith
  qed
  have cross: "\<forall>a \<in> set past. \<forall>b \<in> set raised. later_enough a b"
  proof (intro ballI)
    fix a b assume a: "a \<in> set past" and b: "b \<in> set raised"
    from b have fb: "ha_retailer b = hm_retailer metrics" "timestamp b = now"
      using alerts_to_send_fields raised by auto
    show "later_enough a b"
    proof (cases "ha_retailer b = ha_retailer a")
      case True
      then have "timestamp a + seconds monitor_alert_cooldown \<le> now"
        using old [OF a] fb by simp
      then show ?thesis using fb by (simp add: later_enough_def)
    next
      case False
      then show ?thesis by (simp add: later_enough_def)
    qed
  qed
  have spaced: "alerts_spaced (past @ raised)"
    using sp cross alerts_to_send_spaced raised by (simp add: alerts_spaced_append)
  have pos: "0 \<le> seconds monitor_alert_cooldown"
    by (simp add: seconds_def monitor_alert_cooldown_def)
  have cov_past: "covered la' past"
  proof (cases "raised = []")
    case True
    then show ?thesis using cov la' by simp
  next
    case False
    have "\<And>a. a \<in> set past \<Longrightarrow>
            (case la' (ha_retailer a) of None \<Rightarrow> False | Some t \<Rightarrow> timestamp a \<le> t)"
    proof -
      fix a assume a: "a \<in> set past"
      show "case la' (ha_retailer a) of None \<Rightarrow> False | Some t \<Rightarrow> timestamp a \<le> t"
      proof (cases "ha_retailer a = hm_retailer metrics")
        case True
        then have "timestamp a \<le> now" using old [OF a] pos by linarith
        then show ?thesis using True False la' by simp
      next
        case other: False
        then have "la' (ha_retailer a) = la (ha_retailer a)" using la' by simp
        then show ?thesis using cov a by (simp add: covered_def list_all_iff)
      qed
    qed
    then show ?thesis by (simp add: covered_def list_all_iff)
  qed
  have cov_new: "covered la' raised"
  proof (cases "raised = []")
    case True
    then show ?thesis by (simp add: covered_def)
  next
    case False
    then have "la' (hm_retailer metrics) = Some now" using la' by simp
    then show ?thesis
      using alerts_to_send_fields raised by (auto simp: covered_def list_all_iff)
  qed
  show ?thesis using spaced cov_past cov_new by (simp add: covered_def)
qed

lemma run_checks_keeps_spacing:
  "covered la past \<Longrightarrow> alerts_spaced past \<Longrightarrow>
   alerts_spaced (past @ snd (run_checks la checks))
   \<and> covered (fst (run_checks la checks)) (past @ snd (run_checks la checks))"
proof (induction checks arbitrary: la past)
  case Nil
  then show ?case by simp
next
  case (Cons c checks)
  obtain metrics now where c: "c = (metrics, now)" by (cases c)
  obtain la1 raised where chk: "check_for_alerts la metrics now = (la1, raised)"
    by (cases "check_for_alerts la metrics now")
  have step: "alerts_spaced (past @ raised) \<and> covered la1 (past @ raised)"
    using check_keeps_spacing [OF Cons.prems chk] .
  have "alerts_spaced ((past @ raised) @ snd (run_checks la1 checks))
        \<and> covered (fst (run_checks la1 checks)) ((past @ raised) @ snd (run_checks la1 checks))"
    using Cons.IH [of la1 "past @ raised"] step by simp
  then show ?case using c chk by (simp add: case_prod_beta)
qed

text \<open>
  C9, as stated, fails. The cooldown is 300 seconds, not 15 minutes: a scraper that is
  critical at two checks ten minutes apart raises \<open>status_critical\<close> twice. The
  cooldown is kept per retailer, not per retailer and type: 100 seconds after a
  \<open>status_critical\<close> alert, a first \<open>site_changes\<close> pattern of the same retailer raises
  nothing. And checks that overlap are not held apart: two checks of a critical
  scraper that both read the dictionary before either has written to it both raise
  \<open>status_critical\<close>, one microsecond apart.
\<close>

theorem health_alerts_ten_minutes_apart:
  "snd (run_checks Map.empty
     [(\<lparr> hm_retailer = ''nike'', status = CRITICAL, error_patterns = [] \<rparr>, 0),
      (\<lparr> hm_retailer = ''nike'', status = CRITICAL, error_patterns = [] \<rparr>, minutes 10)])
   = [\<lparr> ha_retailer = ''nike'', ha_alert_type = ''status_critical'', severity = CRITICAL,
         timestamp = 0 \<rparr>,
      \<lparr> ha_retailer = ''nike'', ha_alert_type = ''status_critical'', severity = CRITICAL,
         timestamp = minutes 10 \<rparr>]
   \<and> minutes 10 - 0 < minutes 15
   \<and> snd (run_checks Map.empty
     [(\<lparr> hm_retailer = ''nike'', status = CRITICAL, error_patterns = [] \<rparr>, 0),
      (\<lparr> hm_retailer = ''nike'', status = HEALTHY, error_patterns = [''site_changes''] \<rparr>,
       seconds 100)])
   = [\<lparr> ha_retailer = ''nike'', ha_alert_type = ''status_critical'', severity = CRITICAL,
         timestamp = 0 \<rparr>]
   \<and> snd (overlapped_checks Map.empty
       [(\<lparr> hm_retailer = ''nike'', status = CRITICAL, error_patterns = [] \<rparr>, 0),
        (\<lparr> hm_retailer = ''nike'', status = CRITICAL, error_patterns = [] \<rparr>, 1)])
     = [\<lparr> ha_retailer = ''nike'', ha_alert_type = ''status_critical'', severity = CRITICAL,
           timestamp = 0 \<rparr>,
        \<lparr> ha_retailer = ''nike'', ha_alert_type = ''status_critical'', severity = CRITICAL,
           timestamp = 1 \<rparr>]"
  by (simp add: check_for_alerts_def alerts_due_def record_alerts_def overlapped_checks_def
      alerts_to_send_def monitor_alert_cooldown_def minutes_def seconds_def Let_def)

text \<open>
  C9, amended. A check raises alerts exactly when the scraper is critical or down or
  its error patterns include \<open>site_changes\<close> or \<open>rate_limiting\<close>, and no alert of any type
  was recorded for the same retailer less than 300 seconds before. While such an alert
  is less than 300 seconds old the check raises nothing and changes nothing. Hence,
  in the alerts raised by any sequence of checks that do not overlap, starting with
  no alert recorded, two alerts of the same retailer and type are at least 300 seconds
  apart, the later one after the earlier one.
\<close>

theorem health_alerts_cooldown:
  "(snd (check_for_alerts la metrics now) \<noteq> [] \<longleftrightarrow>
      (status metrics = CRITICAL \<or> status metrics = DOWN
       \<or> ''site_changes'' \<in> set (error_patterns metrics)
       \<or> ''rate_limiting'' \<in> set (error_patterns metrics))
      \<and> \<not> (\<exists>t. la (hm_retailer metrics) = Some t \<and> now - t < seconds 300))
   \<and> (la (hm_retailer metrics) = Some t \<and> now - t < seconds 300 \<longrightarrow>
        check_for_alerts la metrics now = (la, []))
   \<and> (i < j \<and> j < length (snd (run_checks Map.empty checks))
        \<and> ha_retailer (snd (run_checks Map.empty checks) ! i)
            = ha_retailer (snd (run_checks Map.empty checks) ! j)
        \<and> ha_alert_type (snd (run_checks Map.empty checks) ! i)
            = ha_alert_type (snd (run_checks Map.empty checks) ! j) \<longrightarrow>
        timestamp (snd (run_checks Map.empty checks) ! j)
          - timestamp (snd (run_checks Map.empty checks) ! i) \<ge> seconds 300)"
proof (intro conjI impI)
  show "snd (check_for_alerts la metrics now) \<noteq> [] \<longleftrightarrow>
      (status metrics = CRITICAL \<or> status metrics = DOWN
       \<or> ''site_changes'' \<in> set (error_patterns metrics)
       \<or> ''rate_limiting'' \<in> set (error_patterns metrics))
      \<and> \<not> (\<exists>t. la (hm_retailer metrics) = Some t \<and> now - t < seconds 300)"
    using alerts_to_send_nonempty [of metrics now]
    by (cases "la (hm_retailer metrics)")
       (auto simp: check_for_alerts_def alerts_due_def record_alerts_def Let_def monitor_alert_cooldown_def)
next
  assume "la (hm_retailer metrics) = Some t \<and> now - t < seconds 300"
  then show "check_for_alerts la metrics now = (la, [])"
    by (simp add: check_for_alerts_def alerts_due_def record_alerts_def Let_def monitor_alert_cooldown_def)
next
  assume a: "i < j \<and> j < length (snd (run_checks Map.empty checks))
        \<and> ha_retailer (snd (run_checks Map.empty checks) ! i)
            = ha_retailer (snd (run_checks Map.empty checks) ! j)
        \<and> ha_alert_type (snd (run_checks Map.empty checks) ! i)
            = ha_alert_type (snd (run_checks Map.empty checks) ! j)"
  have "alerts_spaced ([] @ snd (run_checks Map.empty checks))"
    using run_checks_keeps_spacing [of Map.empty "[]" checks] by (simp add: covered_def)
  then have "later_enough (snd (run_checks Map.empty checks) ! i)
                          (snd (run_checks Map.empty checks) ! j)"
    using a alerts_spaced_nth by simp
  then show "timestamp (snd (run_checks Map.empty checks) ! j)
          - timestamp (snd (run_checks Map.empty checks) ! i) \<ge> seconds 300"
    using a by (simp add: later_enough_def monitor_alert_cooldown_def)
qed

theorem health_alerts_cooldown_witness:
  "snd (check_for_alerts [''nike'' \<mapsto> 0]
      \<lparr> hm_retailer = ''nike'', status = DOWN, error_patterns = [''rate_limiting''] \<rparr>
      (seconds 300))
     = [\<lparr> ha_retailer = ''nike'', ha_alert_type = ''status_critical'', severity = DOWN,
           timestamp = seconds 300 \<rparr>,
        \<lparr> ha_retailer = ''nike'', ha_alert_type = ''rate_limiting'', severity = WARNING,
           timestamp = seconds 300 \<rparr>]
   \<and> [''nike'' \<mapsto> (0::int)] ''nike'' = Some 0 \<and> 299999999 - 0 < seconds 300
   \<and> check_for_alerts [''nike'' \<mapsto> 0]
      \<lparr> hm_retailer = ''nike'', status = DOWN, error_patterns = [''rate_limiting''] \<rparr> 299999999
     = ([''nike'' \<mapsto> 0], [])
   \<and> snd (run_checks Map.empty
     [(\<lparr> hm_retailer = ''nike'', status = CRITICAL, error_patterns = [] \<rparr>, 0),
      (\<lparr> hm_retailer = ''nike'', status = CRITICAL, error_patterns = [] \<rparr>, seconds 200),
      (\<lparr> hm_retailer = ''nike'', status = CRITICAL, error_patterns = [] \<rparr>, seconds 300)])
     = [\<lparr> ha_retailer = ''nike'', ha_alert_type = ''status_critical'', severity = CRITICAL,
           timestamp = 0 \<rparr>,
        \<lparr> ha_retailer = ''nike'', ha_alert_type = ''status_critical'', severity = CRITICAL,
           timestamp = seconds 300 \<rparr>]
   \<and> seconds 300 - 0 \<ge> seconds 300"
  using health_alerts_cooldown
    [of "[''nike'' \<mapsto> 0]"
        "\<lparr> hm_retailer = ''nike'', status = DOWN, error_patterns = [''rate_limiting''] \<rparr>"
        "299999999" 0 0 1
        "[(\<lparr> hm_retailer = ''nike'', status = CRITICAL, error_patterns = [] \<rparr>, 0),
          (\<lparr> hm_retailer = ''nike'', status = CRITICAL, error_patterns = [] \<rparr>, seconds 200),
          (\<lparr> hm_retailer = ''nike'', status = CRITICAL, error_patterns = [] \<rparr>, seconds 300)]"]
  by (simp add: check_for_alerts_def alerts_due_def record_alerts_def alerts_to_send_def monitor_alert_cooldown_def
      seconds_def Let_def)

end
